theory Spec2Isabelle
  imports Complex_Main
begin

section \<open>Launch-weather correlation: a model of \<^verbatim>\<open>MCP/src/Helper.ts\<close>\<close>

text \<open>
  Conventions of the embedding.
  \<^item> A JavaScript number that measures something (degrees, kilometres, millimetres,
    temperatures) is a double, held as the \<^typ>\<open>real\<close> that it denotes.  Every
    \<open>+\<close>, \<open>-\<close>, \<open>*\<close> and \<open>/\<close> of the code on such numbers is the exact
    operation followed by rounding to the nearest double, ties to even (\<open>fadd\<close>,
    \<open>fsub\<close>, \<open>fmul\<close>, \<open>fdiv\<close> below).  The exponent of a double is bounded
    below (subnormal numbers) but not above: overflow to an infinity is not modelled.
    Where the code can produce \<open>NaN\<close> the result is an option, and \<open>None\<close> is
    \<open>NaN\<close>.  The waits of the retry loop are the exception: the power
    \<open>backoffFactor ** attempt\<close> is recorded as the exact power.
  \<^item> A number that counts (attempts, days, results) or that is an epoch time value is
    an integer.
  \<^item> An optional property (\<open>undefined\<close> or \<open>null\<close>) is an \<^typ>\<open>'a option\<close>,
    except the pad coordinates of a launch, which the code tests against
    \<open>undefined\<close> only: they are a \<open>js_number\<close>.
  \<^item> A \<open>throw\<close> is the left injection of a sum; a \<open>catch\<close> is a case
    distinction on it.
  \<^item> The network is a function from the number of the request (counted from 0) to
    what \<open>fetch\<close> does at that request.
\<close>

subsection \<open>Rate limiting and retry: \<open>makeApiRequestWithRetry\<close>\<close>

text \<open>
  A response as far as the code reads it: the status, the \<open>retry-after\<close> header, and
  the outcome of \<open>response.json()\<close>, whose type depends on the endpoint.
\<close>

record 'b response =
  status :: nat
  retry_after :: "string option"
  body :: 'b

text \<open>The properties of a caught error that the handler inspects.\<close>

record js_error =
  err_name :: string
  err_code :: "string option"
  err_message :: string

datatype 'b fetch_outcome = Responded "'b response" | Rejected js_error

text \<open>
  The three ways the loop waits.  After a 429 the wait is
  \<open>parseInt(header || String(backoffFactor ** attempt))\<close> seconds: \<open>HeaderWait h\<close>
  stands for \<open>parseInt h\<close> and \<open>ParsedBackoff x\<close> for \<open>parseInt (String x)\<close>.  After
  a network failure the wait is \<open>backoffFactor ** attempt\<close> seconds, unparsed.
\<close>

datatype wait = HeaderWait string | ParsedBackoff real | Backoff real

record 'b retry_result =
  returned :: "'b response option"
  requests :: nat
  sleeps :: "wait list"

definition ok :: "'b response \<Rightarrow> bool" where
  "ok r \<longleftrightarrow> 200 \<le> status r \<and> status r \<le> 299"

text \<open>
  \<open>rate_limit_wait\<close> is line 16: an absent or empty header is falsy, so the
  computed backoff is parsed instead.
\<close>

definition rate_limit_wait :: "'b response \<Rightarrow> real \<Rightarrow> nat \<Rightarrow> wait" where
  "rate_limit_wait r backoffFactor attempt =
     (case retry_after r of
        None \<Rightarrow> ParsedBackoff (backoffFactor ^ attempt)
      | Some h \<Rightarrow> if h = [] then ParsedBackoff (backoffFactor ^ attempt) else HeaderWait h)"

text \<open>
  The \<open>catch\<close> clause sorts errors by \<open>err.name\<close> and \<open>err.code\<close>: a timeout or a
  connection error is retried, anything else ends the call.
\<close>

definition is_timeout :: "js_error \<Rightarrow> bool" where
  "is_timeout e \<longleftrightarrow> err_name e = ''AbortError'' \<or> err_code e = Some ''ETIMEDOUT''"

definition is_connection_error :: "js_error \<Rightarrow> bool" where
  "is_connection_error e \<longleftrightarrow>
     err_code e = Some ''ECONNREFUSED'' \<or> err_code e = Some ''ENOTFOUND''"

definition retryable :: "js_error \<Rightarrow> bool" where
  "retryable e \<longleftrightarrow> is_timeout e \<or> is_connection_error e"

fun digit_char :: "nat \<Rightarrow> char" where
  "digit_char n = char_of (48 + n mod 10)"

fun show_nat_aux :: "nat \<Rightarrow> nat \<Rightarrow> string \<Rightarrow> string" where
  "show_nat_aux 0 n acc = acc"
| "show_nat_aux (Suc fuel) n acc =
     (if n < 10 then digit_char n # acc
      else show_nat_aux fuel (n div 10) (digit_char n # acc))"

definition show_nat :: "nat \<Rightarrow> string" where
  "show_nat n = show_nat_aux (Suc n) n []"

text \<open>Line 37: \<open>new Error(`HTTP ${response.status}`)\<close>, an error with no code.\<close>

definition http_error :: "nat \<Rightarrow> js_error" where
  "http_error s = \<lparr>err_name = ''Error'', err_code = None, err_message = ''HTTP '' @ show_nat s\<rparr>"

text \<open>
  The body of the \<open>catch\<close> clause (lines 43 to 61), given the state of the loop.  It
  either ends the call (\<open>Inl\<close>) or hands back the sleeps with which the loop goes on
  (\<open>Inr\<close>).
\<close>

definition on_error ::
  "js_error \<Rightarrow> int \<Rightarrow> real \<Rightarrow> nat \<Rightarrow> wait list \<Rightarrow> 'b retry_result + wait list" where
  "on_error e maxRetries backoffFactor attempt ws =
     (if \<not> retryable e then
        Inl \<lparr>returned = None, requests = Suc attempt, sleeps = ws\<rparr>
      else if int attempt < maxRetries - 1 then
        Inr (ws @ [Backoff (backoffFactor ^ attempt)])
      else
        Inl \<lparr>returned = None, requests = Suc attempt, sleeps = ws\<rparr>)"

text \<open>
  The \<open>for\<close> loop of lines 10 to 62.  Every iteration issues exactly one request, so
  the request of iteration \<open>attempt\<close> is request number \<open>attempt\<close>.  A 403 whose body
  cannot be read, or reads as \<open>null\<close>, changes the logged text only: both ways the
  call returns \<open>null\<close>.
\<close>

function retry_loop ::
  "(nat \<Rightarrow> 'b fetch_outcome) \<Rightarrow> int \<Rightarrow> real \<Rightarrow> nat \<Rightarrow> wait list \<Rightarrow> 'b retry_result" where
  "retry_loop net maxRetries backoffFactor attempt ws =
     (if int attempt < maxRetries then
        (case net attempt of
           Responded r \<Rightarrow>
             if status r = 429 then
               retry_loop net maxRetries backoffFactor (Suc attempt)
                 (ws @ [rate_limit_wait r backoffFactor attempt])
             else if status r = 403 then
               \<lparr>returned = None, requests = Suc attempt, sleeps = ws\<rparr>
             else if status r = 401 then
               \<lparr>returned = None, requests = Suc attempt, sleeps = ws\<rparr>
             else if \<not> ok r then
               (case on_error (http_error (status r)) maxRetries backoffFactor attempt ws of
                  Inl res \<Rightarrow> res
                | Inr ws' \<Rightarrow> retry_loop net maxRetries backoffFactor (Suc attempt) ws')
             else
               \<lparr>returned = Some r, requests = Suc attempt, sleeps = ws\<rparr>
         | Rejected e \<Rightarrow>
             (case on_error e maxRetries backoffFactor attempt ws of
                Inl res \<Rightarrow> res
              | Inr ws' \<Rightarrow> retry_loop net maxRetries backoffFactor (Suc attempt) ws'))
      else \<lparr>returned = None, requests = attempt, sleeps = ws\<rparr>)"
  by pat_completeness auto
termination
  by (relation "measure (\<lambda>(net, maxRetries, backoffFactor, attempt, ws). nat (maxRetries - int attempt))")
    auto

definition makeApiRequestWithRetry ::
  "(nat \<Rightarrow> 'b fetch_outcome) \<Rightarrow> int \<Rightarrow> real \<Rightarrow> 'b retry_result" where
  "makeApiRequestWithRetry net maxRetries backoffFactor =
     retry_loop net maxRetries backoffFactor 0 []"


subsection \<open>Numbers, dates and errors of the JavaScript runtime\<close>

text \<open>
  Doubles (IEEE 754 binary64).  \<open>pow2 e\<close> is 2 to the power \<open>e\<close>.  A double other
  than 0 is \<open>m * pow2 e\<close> or its negative, with an integer \<open>m\<close> below \<open>2 ^ 53\<close>
  and \<open>e\<close> at least \<open>-1074\<close>.  For a real \<open>x\<close> the exponent of its neighbours is
  \<open>ulp_exponent x\<close>, and \<open>fl x\<close> is the double nearest to \<open>x\<close>, the one with the
  even \<open>m\<close> when two are equally near (\<open>rne\<close> rounds to the nearest integer in
  this way).
\<close>

definition pow2 :: "int \<Rightarrow> real" where
  "pow2 e = (if 0 \<le> e then 2 ^ nat e else 1 / 2 ^ nat (- e))"

definition rne :: "real \<Rightarrow> int" where
  "rne t =
     (let f = \<lfloor>t\<rfloor>; r = t - real_of_int f
      in if r < 1 / 2 then f else if 1 / 2 < r then f + 1 else if even f then f else f + 1)"

definition ulp_exponent :: "real \<Rightarrow> int" where
  "ulp_exponent x = max (\<lfloor>log 2 \<bar>x\<bar>\<rfloor> - 52) (- 1074)"

definition fl :: "real \<Rightarrow> real" where
  "fl x =
     (if x = 0 then 0
      else sgn x * (real_of_int (rne (\<bar>x\<bar> / pow2 (ulp_exponent x))) * pow2 (ulp_exponent x)))"

text \<open>The four operators on doubles.\<close>

definition fadd :: "real \<Rightarrow> real \<Rightarrow> real" where
  "fadd x y = fl (x + y)"

definition fsub :: "real \<Rightarrow> real \<Rightarrow> real" where
  "fsub x y = fl (x - y)"

definition fmul :: "real \<Rightarrow> real \<Rightarrow> real" where
  "fmul x y = fl (x * y)"

definition fdiv :: "real \<Rightarrow> real \<Rightarrow> real" where
  "fdiv x y = fl (x / y)"

text \<open>\<open>Math.PI\<close> is the double nearest to pi, 3.141592653589793.\<close>

definition Math_PI :: real where
  "Math_PI = 884279719003555 / 2 ^ 48"

text \<open>\<open>Math.sqrt\<close>: \<open>NaN\<close> below 0, else the correctly rounded root.\<close>

definition Math_sqrt :: "real \<Rightarrow> real option" where
  "Math_sqrt x = (if x < 0 then None else Some (fl (sqrt x)))"

text \<open>
  The functions whose values the language standard leaves to the implementation: they
  are read from the runtime.  \<open>Math_pow\<close> is the operator \<open>**\<close>.
\<close>

record math_runtime =
  Math_sin :: "real \<Rightarrow> real"
  Math_cos :: "real \<Rightarrow> real"
  Math_atan2 :: "real \<Rightarrow> real \<Rightarrow> real"
  Math_pow :: "real \<Rightarrow> real \<Rightarrow> real"

text \<open>\<open>x || 0\<close> on an optional number: \<open>undefined\<close> and \<open>0\<close> both give \<open>0\<close>.\<close>

definition or0 :: "real option \<Rightarrow> real" where
  "or0 x = (case x of None \<Rightarrow> 0 | Some v \<Rightarrow> v)"

text \<open>\<open>Math.round\<close> gives the nearest integer, the greater one of two equally near;
  \<open>round1\<close> and \<open>round2\<close> are \<open>Math.round(x * 10) / 10\<close> and
  \<open>Math.round(x * 100) / 100\<close>.\<close>

definition Math_round :: "real \<Rightarrow> int" where
  "Math_round x = \<lfloor>x + 1 / 2\<rfloor>"

definition round1 :: "real \<Rightarrow> real" where
  "round1 x = fdiv (real_of_int (Math_round (fmul x 10))) 10"

definition round2 :: "real \<Rightarrow> real" where
  "round2 x = fdiv (real_of_int (Math_round (fmul x 100))) 100"

text \<open>
  A number as a property that may be absent or \<open>null\<close>.  In arithmetic \<open>null\<close> counts
  as 0 and \<open>undefined\<close> as \<open>NaN\<close> (\<open>ToNumber\<close>).  A coordinate that the feed gives as
  a numeric string is taken by its value, since every use converts it in this way.
\<close>

datatype js_number = Undefined | Null | Num real

definition ToNumber :: "js_number \<Rightarrow> real option" where
  "ToNumber v = (case v of Undefined \<Rightarrow> None | Null \<Rightarrow> Some 0 | Num x \<Rightarrow> Some x)"

text \<open>
  Time values are milliseconds since the epoch, as in a \<open>Date\<close>; an invalid \<open>Date\<close> is
  \<open>None\<close>.  The day key \<open>toISOString().split('T')[0]\<close> of a valid time value is
  represented by the number of its UTC day, of which the string \<open>YYYY-MM-DD\<close> is an
  injective rendering.  \<open>TimeClip\<close> is the bound on time values: a \<open>Date\<close> computed
  beyond it is invalid.  The time values read from the feeds (a sample's \<open>dt\<close>, a
  forecast's \<open>date_raw\<close>) and given by the parser are taken to lie within it.
\<close>

definition TimeClip :: "int \<Rightarrow> int option" where
  "TimeClip t = (if \<bar>t\<bar> \<le> 8640000000000000 then Some t else None)"

text \<open>A comparison of two \<open>Date\<close> objects; it is false when either is invalid.\<close>

definition date_less :: "int option \<Rightarrow> int option \<Rightarrow> bool" where
  "date_less a b = (case a of None \<Rightarrow> False | Some s \<Rightarrow> (case b of None \<Rightarrow> False | Some t \<Rightarrow> s < t))"

definition date_le :: "int option \<Rightarrow> int option \<Rightarrow> bool" where
  "date_le a b = (case a of None \<Rightarrow> False | Some s \<Rightarrow> (case b of None \<Rightarrow> False | Some t \<Rightarrow> s \<le> t))"

definition msPerDay :: int where
  "msPerDay = 86400000"

definition Day :: "int \<Rightarrow> int" where
  "Day t = t div msPerDay"

definition TimeWithinDay :: "int \<Rightarrow> int" where
  "TimeWithinDay t = t mod msPerDay"

definition getUTCHours :: "int \<Rightarrow> int" where
  "getUTCHours t = (t div 3600000) mod 24"

text \<open>\<open>String(err)\<close> for an error object.\<close>

definition String_of_error :: "js_error \<Rightarrow> string" where
  "String_of_error e = err_name e @ '': '' @ err_message e"

definition type_error :: "string \<Rightarrow> js_error" where
  "type_error m = \<lparr>err_name = ''TypeError'', err_code = None, err_message = m\<rparr>"

definition range_error :: js_error where
  "range_error = \<lparr>err_name = ''RangeError'', err_code = None, err_message = ''Invalid time value''\<rparr>"

text \<open>What \<open>await response.json()\<close> gives: a rejection, \<open>null\<close>, or a value.\<close>

datatype 'a json = Unparseable js_error | JsonNull | Parsed 'a

subsection \<open>Great-circle distance: \<open>calculateDistance\<close>\<close>

definition toRad :: "real \<Rightarrow> real" where
  "toRad deg = fdiv (fmul deg Math_PI) 180"

text \<open>
  Lines 81 to 94.  The result is \<open>None\<close> when it is \<open>NaN\<close>: when \<open>a\<close> or \<open>1 - a\<close>
  is negative, \<open>Math.sqrt\<close> gives \<open>NaN\<close>, and so do \<open>Math.atan2\<close> and the two
  products after it.
\<close>

definition calculateDistance ::
  "math_runtime \<Rightarrow> real \<Rightarrow> real \<Rightarrow> real \<Rightarrow> real \<Rightarrow> real option" where
  "calculateDistance rt lat1 lon1 lat2 lon2 =
     (let R = 6371;
          dLat = toRad (fsub lat2 lat1);
          dLon = toRad (fsub lon2 lon1);
          a = fadd (Math_pow rt (Math_sin rt (fdiv dLat 2)) 2)
                (fmul (fmul (Math_cos rt (toRad lat1)) (Math_cos rt (toRad lat2)))
                   (Math_pow rt (Math_sin rt (fdiv dLon 2)) 2))
      in case Math_sqrt a of
           None \<Rightarrow> None
         | Some y \<Rightarrow>
             (case Math_sqrt (fsub 1 a) of
                None \<Rightarrow> None
              | Some x \<Rightarrow> Some (fmul R (fmul 2 (Math_atan2 rt y x)))))"

text \<open>The invariant of a Coordinate in the data model.\<close>

definition valid_coordinate :: "real \<Rightarrow> real \<Rightarrow> bool" where
  "valid_coordinate lat lon \<longleftrightarrow> - 90 \<le> lat \<and> lat \<le> 90 \<and> - 180 \<le> lon \<and> lon \<le> 180"

subsection \<open>Forecast aggregation: \<open>getWeatherData\<close>\<close>

text \<open>
  One 3-hour sample of the upstream list, with the properties the code reads, named
  by their path: \<open>main.temp\<close> is \<open>main_temp\<close>, \<open>weather?.[0]\<close> is \<open>weather_0\<close>,
  \<open>rain?.['3h']\<close> is \<open>rain_3h\<close>.  \<open>dt\<close> is in seconds.  A sample is taken as the
  upstream schema gives it: \<open>dt\<close>, \<open>main.temp\<close> and \<open>main.feels_like\<close> are numbers.
\<close>

record WeatherDetails =
  w_main :: "string option"
  w_description :: "string option"
  w_icon :: "string option"

record sample =
  dt :: int
  main_temp :: real
  main_feels_like :: real
  main_pressure :: "real option"
  main_humidity :: "real option"
  weather_0 :: "WeatherDetails option"
  clouds_all :: "real option"
  wind_spd :: "real option"
  wind_deg :: "real option"
  rain_3h :: "real option"
  snow_3h :: "real option"

record WeatherTemperature =
  t_day :: real
  t_min :: real
  t_max :: real
  t_morning :: real
  t_night :: real

record WeatherFeelsLike =
  fl_day :: real
  fl_morning :: real
  fl_night :: real

text \<open>
  \<open>date\<close> holds the time value (noon UTC of the day) whose \<open>toUTCString\<close> rendering the
  code stores; \<open>date_raw\<close> is in seconds.
\<close>

record DailyWeather =
  date :: int
  date_raw :: int
  temperature :: WeatherTemperature
  feels_like :: WeatherFeelsLike
  pressure :: "real option"
  humidity :: "real option"
  weather :: WeatherDetails
  clouds :: "real option"
  wind_speed :: "real option"
  wind_direction :: "real option"
  precipitation :: "real option"
  snow :: "real option"

record forecast_location =
  loc_latitude :: real
  loc_longitude :: real
  loc_city :: "string option"
  loc_country :: "string option"

text \<open>\<open>filtered_for_date\<close> is the property that \<open>getNearbyLaunches\<close> adds; it holds the
  time value whose \<open>toLocaleDateString\<close> rendering the code stores.\<close>

record WeatherForecastResult =
  wf_location :: forecast_location
  forecasts :: "DailyWeather list"
  days_count :: nat
  wf_error :: "string option"
  filtered_for_date :: "int option"

record city_info =
  city_name :: "string option"
  city_country :: "string option"

record forecast_payload =
  payload_city :: "city_info option"
  payload_list :: "sample list option"

text \<open>
  The \<open>Map\<close> from day key to samples, in insertion order: an association list in which
  a new key goes to the end and a sample goes to the end of its bucket.
\<close>

fun push_item :: "int \<Rightarrow> sample \<Rightarrow> (int \<times> sample list) list \<Rightarrow> (int \<times> sample list) list" where
  "push_item k x [] = [(k, [x])]"
| "push_item k x ((k', xs) # rest) =
     (if k = k' then (k', xs @ [x]) # rest else (k', xs) # push_item k x rest)"

definition dayKey_of_sample :: "sample \<Rightarrow> int" where
  "dayKey_of_sample item = Day (dt item * 1000)"

definition group_by_day :: "sample list \<Rightarrow> (int \<times> sample list) list" where
  "group_by_day items = foldl (\<lambda>dailyMap item. push_item (dayKey_of_sample item) item dailyMap) [] items"

definition is_midday :: "sample \<Rightarrow> bool" where
  "is_midday i \<longleftrightarrow> (let hour = getUTCHours (dt i * 1000) in 11 \<le> hour \<and> hour \<le> 14)"

definition weather_details_of :: "sample \<Rightarrow> WeatherDetails" where
  "weather_details_of i =
     (case weather_0 i of
        None \<Rightarrow> \<lparr>w_main = None, w_description = None, w_icon = None\<rparr>
      | Some w \<Rightarrow> w)"

text \<open>
  Lines 203 to 242 for one bucket.  A bucket is never empty; on an empty one the code
  would read \<open>middayItem.main\<close> of \<open>undefined\<close> and throw.
\<close>

fun make_forecast :: "int \<Rightarrow> sample list \<Rightarrow> js_error + DailyWeather" where
  "make_forecast dayKey [] = Inl (type_error ''Cannot read properties of undefined (reading 'main')'')"
| "make_forecast dayKey (first # others) =
     (let items = first # others;
          temps = map main_temp items;
          feelsLikes = map main_feels_like items;
          minTemp = fold min (tl temps) (hd temps);
          maxTemp = fold max (tl temps) (hd temps);
          avgTemp = fdiv (foldl fadd 0 temps) (real (length temps));
          middayItem = (case find is_midday items of Some m \<Rightarrow> m | None \<Rightarrow> first)
      in Inr \<lparr>date = dayKey * msPerDay + 12 * 3600000,
              date_raw = (dayKey * msPerDay) div 1000,
              temperature = \<lparr>t_day = round1 avgTemp, t_min = round1 minTemp, t_max = round1 maxTemp,
                             t_morning = hd temps, t_night = last temps\<rparr>,
              feels_like = \<lparr>fl_day = round1 (fdiv (foldl fadd 0 feelsLikes)
                                                      (real (length feelsLikes))),
                            fl_morning = hd feelsLikes, fl_night = last feelsLikes\<rparr>,
              pressure = main_pressure middayItem,
              humidity = main_humidity middayItem,
              weather = weather_details_of middayItem,
              clouds = Some (or0 (clouds_all middayItem)),
              wind_speed = Some (or0 (wind_spd middayItem)),
              wind_direction = Some (or0 (wind_deg middayItem)),
              precipitation = Some (foldl (\<lambda>sum i. fadd sum (or0 (rain_3h i))) 0 items),
              snow = Some (foldl (\<lambda>sum i. fadd sum (or0 (snow_3h i))) 0 items)\<rparr>)"

text \<open>The loop of lines 199 to 246 over the buckets, with its \<open>dayCount >= days\<close> exit.\<close>

fun daily_loop :: "nat \<Rightarrow> nat \<Rightarrow> (int \<times> sample list) list \<Rightarrow> js_error + DailyWeather list" where
  "daily_loop days dayCount [] = Inr []"
| "daily_loop days dayCount ((dayKey, items) # rest) =
     (if dayCount \<ge> days then Inr []
      else (case make_forecast dayKey items of
              Inl e \<Rightarrow> Inl e
            | Inr forecast \<Rightarrow>
                (case daily_loop days (Suc dayCount) rest of
                   Inl e \<Rightarrow> Inl e
                 | Inr fs \<Rightarrow> Inr (forecast # fs))))"

text \<open>Lines 183 to 246: grouping, then one forecast per bucket.\<close>

definition aggregate :: "nat \<Rightarrow> sample list \<Rightarrow> js_error + DailyWeather list" where
  "aggregate days items = daily_loop days 0 (group_by_day items)"

definition weather_failure :: "real \<Rightarrow> real \<Rightarrow> string \<Rightarrow> WeatherForecastResult" where
  "weather_failure latitude longitude msg =
     \<lparr>wf_location = \<lparr>loc_latitude = latitude, loc_longitude = longitude,
                      loc_city = None, loc_country = None\<rparr>,
      forecasts = [], days_count = 0, wf_error = Some msg, filtered_for_date = None\<rparr>"

definition city_location :: "real \<Rightarrow> real \<Rightarrow> forecast_payload \<Rightarrow> forecast_location" where
  "city_location latitude longitude data =
     \<lparr>loc_latitude = latitude, loc_longitude = longitude,
      loc_city = (case payload_city data of None \<Rightarrow> None | Some c \<Rightarrow> city_name c),
      loc_country = (case payload_city data of None \<Rightarrow> None | Some c \<Rightarrow> city_country c)\<rparr>"

definition getWeatherData ::
  "(nat \<Rightarrow> forecast_payload json fetch_outcome) \<Rightarrow> real \<Rightarrow> real \<Rightarrow> nat \<Rightarrow> WeatherForecastResult" where
  "getWeatherData net latitude longitude days =
     (case returned (makeApiRequestWithRetry net 3 2) of
        None \<Rightarrow>
          weather_failure latitude longitude
            ''Failed to fetch weather data after retries (rate limit or API issue)''
      | Some response \<Rightarrow>
          (case body response of
             Unparseable e \<Rightarrow> weather_failure latitude longitude (String_of_error e)
           | JsonNull \<Rightarrow>
               weather_failure latitude longitude
                 (String_of_error (type_error ''Cannot read properties of null (reading 'list')''))
           | Parsed data \<Rightarrow>
               (case payload_list data of
                  None \<Rightarrow>
                    \<lparr>wf_location = city_location latitude longitude data,
                     forecasts = [], days_count = 0,
                     wf_error = Some ''No weather data available'', filtered_for_date = None\<rparr>
                | Some items \<Rightarrow>
                    (case aggregate days items of
                       Inl e \<Rightarrow> weather_failure latitude longitude (String_of_error e)
                     | Inr fs \<Rightarrow>
                         \<lparr>wf_location = city_location latitude longitude data,
                          forecasts = fs, days_count = length fs,
                          wf_error = None, filtered_for_date = None\<rparr>))))"


text \<open>Test data: a sample, and a network that answers every forecast request with 200.\<close>

definition fixture_sample :: "int \<Rightarrow> real \<Rightarrow> real option \<Rightarrow> sample" where
  "fixture_sample t temp rain =
     \<lparr>dt = t, main_temp = temp, main_feels_like = temp, main_pressure = Some 1013,
      main_humidity = Some 50,
      weather_0 = Some \<lparr>w_main = Some ''Clear'', w_description = Some ''clear sky'',
                         w_icon = Some ''01d''\<rparr>,
      clouds_all = Some 0, wind_spd = None, wind_deg = None, rain_3h = rain, snow_3h = None\<rparr>"

definition fixture_forecast_net :: "sample list \<Rightarrow> nat \<Rightarrow> forecast_payload json fetch_outcome" where
  "fixture_forecast_net items =
     (\<lambda>n. Responded \<lparr>status = 200, retry_after = None,
                      body = Parsed \<lparr>payload_city = None, payload_list = Some items\<rparr>\<rparr>)"

text \<open>
  Test data: the three samples of 10 November 2025 at 00:00, 03:00 and 06:00 UTC, each
  of 0.35 degrees; and two samples of that day, of 10 and 14.5 degrees, the first with
  1.5 mm of rain.
\<close>

definition fixture_constant_day :: "sample list" where
  "fixture_constant_day =
     [fixture_sample 1762732800 (fl (35 / 100)) None,
      fixture_sample 1762743600 (fl (35 / 100)) None,
      fixture_sample 1762754400 (fl (35 / 100)) None]"

definition fixture_two_samples :: "sample list" where
  "fixture_two_samples =
     [fixture_sample 1762732800 10 (Some (3 / 2)), fixture_sample 1762743600 (29 / 2) None]"

subsection \<open>Strings\<close>

text \<open>Case conversion on the ASCII letters, which is all the compared words contain.\<close>

definition lower_char :: "char \<Rightarrow> char" where
  "lower_char c = (let n = (of_char c :: nat) in if 65 \<le> n \<and> n \<le> 90 then char_of (n + 32) else c)"

definition upper_char :: "char \<Rightarrow> char" where
  "upper_char c = (let n = (of_char c :: nat) in if 97 \<le> n \<and> n \<le> 122 then char_of (n - 32) else c)"

definition toLowerCase :: "string \<Rightarrow> string" where
  "toLowerCase s = map lower_char s"

text \<open>\<open>s.charAt(0).toUpperCase() + s.slice(1)\<close>\<close>

definition capitalize :: "string \<Rightarrow> string" where
  "capitalize s = (case s of [] \<Rightarrow> [] | c # cs \<Rightarrow> upper_char c # cs)"

fun starts_with :: "string \<Rightarrow> string \<Rightarrow> bool" where
  "starts_with s [] = True"
| "starts_with [] (c # sub) = False"
| "starts_with (a # s) (c # sub) = (a = c \<and> starts_with s sub)"

text \<open>\<open>s.includes(sub)\<close>\<close>

fun str_includes :: "string \<Rightarrow> string \<Rightarrow> bool" where
  "str_includes [] sub = (sub = [])"
| "str_includes (a # s) sub = (starts_with (a # s) sub \<or> str_includes s sub)"

definition is_digit :: "char \<Rightarrow> bool" where
  "is_digit c \<longleftrightarrow> 48 \<le> (of_char c :: nat) \<and> (of_char c :: nat) \<le> 57"

text \<open>\<open>s.match(/\d{4}/)\<close> is not \<open>null\<close>: four digits in a row somewhere in \<open>s\<close>.\<close>

fun has_four_digits :: "string \<Rightarrow> bool" where
  "has_four_digits (a # b # c # d # rest) =
     ((is_digit a \<and> is_digit b \<and> is_digit c \<and> is_digit d) \<or> has_four_digits (b # c # d # rest))"
| "has_four_digits s = False"

text \<open>A string used as a condition: \<open>undefined\<close>, \<open>null\<close> and \<open>""\<close> are falsy.\<close>

definition truthy :: "string option \<Rightarrow> bool" where
  "truthy s \<longleftrightarrow> (case s of None \<Rightarrow> False | Some v \<Rightarrow> v \<noteq> [])"

definition or_empty :: "string option \<Rightarrow> string" where
  "or_empty s = (case s of None \<Rightarrow> [] | Some v \<Rightarrow> v)"

subsection \<open>The calendar of \<open>Date\<close>\<close>

text \<open>
  The day and year arithmetic of the language standard (ECMA-262, Time Values and Time
  Range), on the proleptic Gregorian calendar.  \<open>YearFromDay d\<close> is the year \<open>y\<close> with
  \<open>DayFromYear y \<le> d < DayFromYear (y + 1)\<close>, found from an estimate that is off by
  at most one.
\<close>

definition DayFromYear :: "int \<Rightarrow> int" where
  "DayFromYear y = 365 * (y - 1970) + (y - 1969) div 4 - (y - 1901) div 100 + (y - 1601) div 400"

definition DaysInYear :: "int \<Rightarrow> int" where
  "DaysInYear y =
     (if y mod 4 \<noteq> 0 then 365 else if y mod 100 \<noteq> 0 then 366
      else if y mod 400 \<noteq> 0 then 365 else 366)"

definition YearFromDay :: "int \<Rightarrow> int" where
  "YearFromDay d =
     (let y = 1970 + (400 * d) div 146097
      in if d < DayFromYear y then y - 1 else if DayFromYear (y + 1) \<le> d then y + 1 else y)"

definition YearFromTime :: "int \<Rightarrow> int" where
  "YearFromTime t = YearFromDay (Day t)"

definition leap_days :: "int \<Rightarrow> int" where
  "leap_days y = (if DaysInYear y = 366 then 1 else 0)"

definition DayWithinYear :: "int \<Rightarrow> int" where
  "DayWithinYear t = Day t - DayFromYear (YearFromTime t)"

text \<open>The month (0 to 11) of day \<open>d\<close> within a year with \<open>L\<close> leap days.\<close>

definition month_of_day :: "int \<Rightarrow> int \<Rightarrow> int" where
  "month_of_day d L =
     (if d < 31 then 0 else if d < 59 + L then 1 else if d < 90 + L then 2
      else if d < 120 + L then 3 else if d < 151 + L then 4 else if d < 181 + L then 5
      else if d < 212 + L then 6 else if d < 243 + L then 7 else if d < 273 + L then 8
      else if d < 304 + L then 9 else if d < 334 + L then 10 else 11)"

definition MonthFromTime :: "int \<Rightarrow> int" where
  "MonthFromTime t = month_of_day (DayWithinYear t) (leap_days (YearFromTime t))"

text \<open>The day within the year on which month \<open>m\<close> (0 to 11) starts.\<close>

definition month_start :: "int \<Rightarrow> int \<Rightarrow> int" where
  "month_start m L =
     (if m = 0 then 0 else if m = 1 then 31 else if m = 2 then 59 + L
      else if m = 3 then 90 + L else if m = 4 then 120 + L else if m = 5 then 151 + L
      else if m = 6 then 181 + L else if m = 7 then 212 + L else if m = 8 then 243 + L
      else if m = 9 then 273 + L else if m = 10 then 304 + L else 334 + L)"

definition DateFromTime :: "int \<Rightarrow> int" where
  "DateFromTime t =
     DayWithinYear t - month_start (MonthFromTime t) (leap_days (YearFromTime t)) + 1"

definition MakeDay :: "int \<Rightarrow> int \<Rightarrow> int \<Rightarrow> int" where
  "MakeDay year month dt' =
     (let ym = year + month div 12; mn = month mod 12
      in DayFromYear ym + month_start mn (leap_days ym) + dt' - 1)"

definition MakeTime :: "int \<Rightarrow> int \<Rightarrow> int \<Rightarrow> int \<Rightarrow> int" where
  "MakeTime hour minute sec ms = hour * 3600000 + minute * 60000 + sec * 1000 + ms"

definition MakeDate :: "int \<Rightarrow> int \<Rightarrow> int" where
  "MakeDate day time = day * msPerDay + time"

text \<open>\<open>Date.UTC\<close>, with its rule that the years 0 to 99 mean 1900 to 1999.\<close>

definition Date_UTC :: "int \<Rightarrow> int \<Rightarrow> int \<Rightarrow> int \<Rightarrow> int \<Rightarrow> int \<Rightarrow> int \<Rightarrow> int option" where
  "Date_UTC year month dt' hours minutes seconds ms =
     (let yr = (if 0 \<le> year \<and> year \<le> 99 then 1900 + year else year)
      in TimeClip (MakeDate (MakeDay yr month dt') (MakeTime hours minutes seconds ms)))"

text \<open>
  Local time is UTC plus the offset \<open>tz\<close> of the host (in ms), taken as constant: a
  zone without daylight-saving changes.
\<close>

definition LocalTime :: "int \<Rightarrow> int \<Rightarrow> int" where
  "LocalTime tz t = t + tz"

definition getFullYear :: "int \<Rightarrow> int \<Rightarrow> int" where
  "getFullYear tz t = YearFromTime (LocalTime tz t)"

definition getMonth :: "int \<Rightarrow> int \<Rightarrow> int" where
  "getMonth tz t = MonthFromTime (LocalTime tz t)"

definition getDate :: "int \<Rightarrow> int \<Rightarrow> int" where
  "getDate tz t = DateFromTime (LocalTime tz t)"

text \<open>\<open>setFullYear\<close> on a valid \<open>Date\<close>; the \<open>Date\<close> becomes invalid when the new time
  value is out of range.\<close>

definition setFullYear :: "int \<Rightarrow> int \<Rightarrow> int \<Rightarrow> int option" where
  "setFullYear tz t year =
     (let lt = LocalTime tz t;
          newDate = MakeDate (MakeDay year (MonthFromTime lt) (DateFromTime lt)) (TimeWithinDay lt)
      in TimeClip (newDate - tz))"

subsection \<open>Geocoding: \<open>geocodeLocation\<close>\<close>

record geo_match =
  g_name :: string
  g_local_names_en :: "string option"
  g_lat :: real
  g_lon :: real
  g_country :: string
  g_state :: "string option"

record GeocodeResult =
  name :: string
  local_name :: string
  latitude :: real
  longitude :: real
  country :: string
  state :: string

definition geocodeLocation :: "(nat \<Rightarrow> geo_match list json fetch_outcome) \<Rightarrow> GeocodeResult option" where
  "geocodeLocation net =
     (case returned (makeApiRequestWithRetry net 3 2) of
        None \<Rightarrow> None
      | Some response \<Rightarrow>
          (case body response of
             Unparseable e \<Rightarrow> None
           | JsonNull \<Rightarrow> None
           | Parsed data \<Rightarrow>
               (case data of
                  [] \<Rightarrow> None
                | res # others \<Rightarrow>
                    Some \<lparr>name = g_name res,
                          local_name = (if truthy (g_local_names_en res)
                                        then or_empty (g_local_names_en res) else g_name res),
                          latitude = g_lat res,
                          longitude = g_lon res,
                          country = g_country res,
                          state = (if truthy (g_state res) then or_empty (g_state res) else ''N/A'')\<rparr>)))"

subsection \<open>Launch catalog: \<open>getNextLaunch\<close>\<close>

text \<open>
  An upstream launch record and its projection.  Of the 27 projected properties the
  model keeps those that the filters and the correlation read; the others (window,
  mission, rocket, pad name, image, ...) are copied from the feed and never read again.
\<close>

record upstream_launch =
  u_id :: string
  u_name :: string
  u_status_name :: "string option"
  u_provider_name :: "string option"
  u_provider_type :: "string option"
  u_net :: "string option"
  u_pad_latitude :: js_number
  u_pad_longitude :: js_number

datatype reason =
    PoorWeather string
  | HighCloudCover real
  | HighHumidity real
  | HeavyPrecipitation real
  | HeavySnow real
  | NoForecast
  | ErrorCheckingWeather string
  | ClearConditions

record visibility_verdict =
  vis_status :: string
  can_be_seen :: bool
  reasons :: "reason list"

record weather_snapshot =
  ws_main :: "string option"
  ws_description :: "string option"
  ws_clouds :: real
  ws_humidity :: real
  ws_precipitation :: real
  ws_snow :: real
  ws_temperature :: WeatherTemperature

record Launch =
  launch_id :: string
  launch_name :: string
  launch_status :: string
  launch_service_provider :: string
  provider_type :: string
  net_raw :: "string option"
  pad_latitude :: js_number
  pad_longitude :: js_number
  distance_km :: "real option"
  visibility :: "visibility_verdict option"
  weather_forecast :: "weather_snapshot option"

definition project_launch :: "upstream_launch \<Rightarrow> Launch" where
  "project_launch launch =
     \<lparr>launch_id = u_id launch,
      launch_name = u_name launch,
      launch_status = or_empty (u_status_name launch),
      launch_service_provider = or_empty (u_provider_name launch),
      provider_type = or_empty (u_provider_type launch),
      net_raw = u_net launch,
      pad_latitude = u_pad_latitude launch,
      pad_longitude = u_pad_longitude launch,
      distance_km = None,
      visibility = None,
      weather_forecast = None\<rparr>"

text \<open>A filter applies when it is truthy; it keeps the names that include it, case aside.\<close>

definition filtered_out :: "string option \<Rightarrow> string \<Rightarrow> bool" where
  "filtered_out flt nm \<longleftrightarrow> truthy flt \<and> \<not> str_includes (toLowerCase nm) (toLowerCase (or_empty flt))"

text \<open>The loop of lines 373 to 426; it tests the length after the push.\<close>

fun launch_loop ::
  "string option \<Rightarrow> string option \<Rightarrow> nat \<Rightarrow> upstream_launch list \<Rightarrow> Launch list \<Rightarrow> Launch list" where
  "launch_loop statusFilter providerFilter maxResults [] filteredLaunches = filteredLaunches"
| "launch_loop statusFilter providerFilter maxResults (launch # rest) filteredLaunches =
     (if filtered_out statusFilter (or_empty (u_status_name launch)) then
        launch_loop statusFilter providerFilter maxResults rest filteredLaunches
      else if filtered_out providerFilter (or_empty (u_provider_name launch)) then
        launch_loop statusFilter providerFilter maxResults rest filteredLaunches
      else if length (filteredLaunches @ [project_launch launch]) \<ge> maxResults then
        filteredLaunches @ [project_launch launch]
      else
        launch_loop statusFilter providerFilter maxResults rest
          (filteredLaunches @ [project_launch launch]))"

record launch_payload =
  results :: "upstream_launch list option"

definition getNextLaunch ::
  "(nat \<Rightarrow> launch_payload json fetch_outcome) \<Rightarrow> string option \<Rightarrow> string option \<Rightarrow> nat \<Rightarrow> Launch list" where
  "getNextLaunch net statusFilter providerFilter maxResults =
     (case returned (makeApiRequestWithRetry net 10000 3) of
        None \<Rightarrow> []
      | Some response \<Rightarrow>
          (case body response of
             Unparseable e \<Rightarrow> []
           | JsonNull \<Rightarrow> []
           | Parsed data \<Rightarrow>
               (case results data of
                  None \<Rightarrow> []
                | Some launches \<Rightarrow>
                    if launches = [] then []
                    else launch_loop statusFilter providerFilter maxResults launches [])))"

subsection \<open>Correlation: \<open>getNearbyLaunches\<close>\<close>

text \<open>
  What the function reads from outside: the three endpoints (the reply may depend on
  the query string and on the coordinates of the request), the \<open>Date\<close> parser of the
  runtime (\<open>new Date(string)\<close>; \<open>None\<close> is an invalid \<open>Date\<close>), the offset of local
  time, the clock at its three readings (line 466, line 519, line 520), and the
  mathematical functions of the runtime.
\<close>

record world =
  geo_net :: "string \<Rightarrow> nat \<Rightarrow> geo_match list json fetch_outcome"
  weather_net :: "real \<Rightarrow> real \<Rightarrow> nat \<Rightarrow> forecast_payload json fetch_outcome"
  launch_net :: "nat \<Rightarrow> launch_payload json fetch_outcome"
  parseDate :: "string \<Rightarrow> int option"
  tz :: int
  now_parse :: int
  now_cutoff :: int
  now_start :: int
  math :: math_runtime

text \<open>
  The three dates of lines 452 to 454 once the inner \<open>try\<close> block has completed with a
  valid target; \<open>dateStart\<close> and \<open>dateEnd\<close> may be invalid.
\<close>

record date_window =
  targetDate :: int
  dateStart :: "int option"
  dateEnd :: "int option"

definition invalid_date :: js_error where
  "invalid_date = \<lparr>err_name = ''Error'', err_code = None, err_message = ''Invalid date''\<rparr>"

text \<open>
  Lines 458 to 469: the parsed date, moved to the year after the current one when it
  lies before now and the string has no four digits in a row.  \<open>Inl\<close> is the
  \<open>throw new Error("Invalid date")\<close>; \<open>Inr None\<close> is a target that \<open>setFullYear\<close>
  has made invalid, which nothing in the inner \<open>try\<close> block rejects.
\<close>

definition resolve_target :: "world \<Rightarrow> string \<Rightarrow> js_error + int option" where
  "resolve_target w specificDate =
     (case parseDate w specificDate of
        None \<Rightarrow> Inl invalid_date
      | Some parsed \<Rightarrow>
          (let now = now_parse w
           in if parsed < now \<and> \<not> has_four_digits specificDate
              then Inr (setFullYear (tz w) parsed (getFullYear (tz w) now + 1))
              else Inr (Some parsed)))"

text \<open>Lines 472 to 483: the UTC day with the local year, month and date of the target.\<close>

definition window_of :: "world \<Rightarrow> int \<Rightarrow> date_window" where
  "window_of w target =
     \<lparr>targetDate = target,
      dateStart = Date_UTC (getFullYear (tz w) target) (getMonth (tz w) target)
                    (getDate (tz w) target) 0 0 0 0,
      dateEnd = Date_UTC (getFullYear (tz w) target) (getMonth (tz w) target)
                    (getDate (tz w) target) 23 59 59 999\<rparr>"

definition invalid_date_message :: "string \<Rightarrow> string" where
  "invalid_date_message specificDate =
     ''Invalid date format: '' @ specificDate @ ''. Try '' @ [CHR 0x22] @ ''Nov 10'' @ [CHR 0x22]
       @ '' or '' @ [CHR 0x22] @ ''2025-11-10'' @ [CHR 0x22]"

text \<open>
  Lines 529 to 538.  A comparison with an invalid \<open>Date\<close> is false: with a specific
  date such a launch is skipped, without one it is not.
\<close>

definition outside_window ::
  "date_window option \<Rightarrow> int option \<Rightarrow> int option \<Rightarrow> int option \<Rightarrow> bool" where
  "outside_window win cutoff startDate launchTime =
     (case win of
        Some dw \<Rightarrow> \<not> (date_le (dateStart dw) launchTime \<and> date_le launchTime (dateEnd dw))
      | None \<Rightarrow> date_less cutoff launchTime \<or> date_less launchTime startDate)"

text \<open>
  The loop of lines 524 to 552; it keeps the order of the catalog.  Line 540 lets a
  \<open>null\<close> coordinate pass, which then counts as 0 in \<open>calculateDistance\<close>.  A distance
  that is \<open>NaN\<close> fails the comparison of line 548.
\<close>

fun nearby_loop ::
  "world \<Rightarrow> date_window option \<Rightarrow> int option \<Rightarrow> int option \<Rightarrow> GeocodeResult \<Rightarrow> real \<Rightarrow>
   Launch list \<Rightarrow> Launch list" where
  "nearby_loop w win cutoff startDate locData maxDistanceKm [] = []"
| "nearby_loop w win cutoff startDate locData maxDistanceKm (launch # rest) =
     (let others = nearby_loop w win cutoff startDate locData maxDistanceKm rest
      in if \<not> truthy (net_raw launch) then others
         else if outside_window win cutoff startDate (parseDate w (or_empty (net_raw launch)))
         then others
         else if pad_latitude launch = Undefined \<or> pad_longitude launch = Undefined then others
         else (case ToNumber (pad_latitude launch) of
                 None \<Rightarrow> others
               | Some lat \<Rightarrow>
                   (case ToNumber (pad_longitude launch) of
                      None \<Rightarrow> others
                    | Some lon \<Rightarrow>
                        (case calculateDistance (math w) (latitude locData) (longitude locData)
                                lat lon of
                           None \<Rightarrow> others
                         | Some distance \<Rightarrow>
                             if distance \<le> maxDistanceKm
                             then launch\<lparr>distance_km := Some (round2 distance)\<rparr> # others
                             else others))))"

definition bad_weather_words :: "string list" where
  "bad_weather_words = [''clouds'', ''rain'', ''thunderstorm'', ''snow'', ''drizzle'', ''mist'', ''fog'']"

text \<open>Lines 582 to 619: the status and the reasons drawn from a matching forecast.\<close>

definition assess_weather :: "DailyWeather \<Rightarrow> string \<times> reason list" where
  "assess_weather matchingWeather =
     (let weatherMain = toLowerCase (or_empty (w_main (weather matchingWeather)));
          clouds' = or0 (clouds matchingWeather);
          humidity' = or0 (humidity matchingWeather);
          precipitation' = or0 (precipitation matchingWeather);
          snow' = or0 (snow matchingWeather);
          badWeather = (weatherMain \<in> set bad_weather_words);
          highClouds = (clouds' > 30);
          highHumidity = (humidity' > 80);
          highPrecipitation = (precipitation' > 5);
          highSnow = (snow' > 5);
          visibilityReasons =
            (if badWeather then [PoorWeather (capitalize weatherMain)] else [])
            @ (if highClouds then [HighCloudCover clouds'] else [])
            @ (if highHumidity then [HighHumidity humidity'] else [])
            @ (if highPrecipitation then [HeavyPrecipitation precipitation'] else [])
            @ (if highSnow then [HeavySnow snow'] else [])
      in if length visibilityReasons \<ge> 3 \<or> highSnow \<or> (badWeather \<and> highClouds)
         then (''Not Visible'', visibilityReasons)
         else if length visibilityReasons \<ge> 1 then (''Low Visibility'', visibilityReasons)
         else (''Good'', visibilityReasons))"

text \<open>Lines 642 to 646.\<close>

definition verdict :: "string \<Rightarrow> reason list \<Rightarrow> visibility_verdict" where
  "verdict visibilityStatus visibilityReasons =
     \<lparr>vis_status = visibilityStatus,
      can_be_seen = (visibilityStatus \<in> set [''Good'', ''Low Visibility'']),
      reasons = (if length visibilityReasons > 0 then visibilityReasons else [ClearConditions])\<rparr>"

definition snapshot :: "DailyWeather \<Rightarrow> weather_snapshot" where
  "snapshot matchingWeather =
     \<lparr>ws_main = w_main (weather matchingWeather),
      ws_description = w_description (weather matchingWeather),
      ws_clouds = or0 (clouds matchingWeather),
      ws_humidity = or0 (humidity matchingWeather),
      ws_precipitation = or0 (precipitation matchingWeather),
      ws_snow = or0 (snow matchingWeather),
      ws_temperature = temperature matchingWeather\<rparr>"

text \<open>Lines 570 to 578: the first forecast of the launch's UTC day.\<close>

definition matching_forecast :: "int \<Rightarrow> DailyWeather list \<Rightarrow> DailyWeather option" where
  "matching_forecast launchDay fs = find (\<lambda>forecast. Day (date_raw forecast * 1000) = launchDay) fs"

text \<open>
  The body of the loop of lines 557 to 647 for one launch.  \<open>toISOString\<close> of an
  invalid \<open>Date\<close> throws a \<open>RangeError\<close>, which the inner handler turns into the status
  \<open>Unknown\<close>.
\<close>

definition check_visibility :: "world \<Rightarrow> DailyWeather list \<Rightarrow> Launch \<Rightarrow> Launch" where
  "check_visibility w fs launch =
     (if \<not> truthy (net_raw launch) then launch\<lparr>visibility := Some (verdict ''Good'' [])\<rparr>
      else
        (case parseDate w (or_empty (net_raw launch)) of
           None \<Rightarrow>
             launch\<lparr>visibility :=
               Some (verdict ''Unknown'' [ErrorCheckingWeather (String_of_error range_error)])\<rparr>
         | Some launchDate \<Rightarrow>
             (case matching_forecast (Day launchDate) fs of
                Some matchingWeather \<Rightarrow>
                  launch\<lparr>visibility :=
                           Some (verdict (fst (assess_weather matchingWeather))
                                   (snd (assess_weather matchingWeather))),
                         weather_forecast := Some (snapshot matchingWeather)\<rparr>
              | None \<Rightarrow> launch\<lparr>visibility := Some (verdict ''Unknown'' [NoForecast])\<rparr>)))"

text \<open>
  \<open>specific_date\<close> holds the time value whose \<open>toLocaleDateString\<close> rendering the code
  stores; both it and \<open>date_filter_active\<close> are set with a specific date only.
\<close>

record search_params =
  sp_maxDistanceKm :: real
  sp_daysAhead :: nat
  specific_date :: "int option"
  date_filter_active :: "bool option"

record found_result =
  found_location :: GeocodeResult
  found_search_params :: search_params
  launches_found :: nat
  launches :: "Launch list"
  result_weather :: "WeatherForecastResult option"

text \<open>\<open>ErrorResult e l\<close> is the object \<open>{ error: e, location: l }\<close>.\<close>

datatype nearby_result = ErrorResult string string | Found found_result

text \<open>Lines 492 to 672, once the location and the date window are known.\<close>

definition correlate ::
  "world \<Rightarrow> GeocodeResult \<Rightarrow> real \<Rightarrow> nat \<Rightarrow> nat \<Rightarrow> date_window option \<Rightarrow> found_result" where
  "correlate w locData maxDistanceKm daysAhead maxResults win =
     (let fetched = getWeatherData (weather_net w (latitude locData) (longitude locData))
                      (latitude locData) (longitude locData)
                      (case win of Some dw \<Rightarrow> 16 | None \<Rightarrow> daysAhead);
          weatherData =
            (case win of
               None \<Rightarrow> fetched
             | Some dw \<Rightarrow>
                 (let targetDay = Day (targetDate dw);
                      filteredWeather =
                        filter (\<lambda>forecast. Day (date_raw forecast * 1000) = targetDay) (forecasts fetched)
                  in fetched\<lparr>forecasts := filteredWeather,
                              days_count := length filteredWeather,
                              filtered_for_date := Some (targetDate dw)\<rparr>));
          catalog = getNextLaunch (launch_net w) (Some ''Go'') None maxResults;
          cutoff = (case win of Some dw \<Rightarrow> dateEnd dw
                    | None \<Rightarrow> TimeClip (now_cutoff w + int daysAhead * 86400000));
          startDate = (case win of Some dw \<Rightarrow> dateStart dw | None \<Rightarrow> Some (now_start w));
          nearby = sort_key (\<lambda>l. or0 (distance_km l))
                     (nearby_loop w win cutoff startDate locData maxDistanceKm catalog);
          checked = map (check_visibility w (forecasts weatherData)) nearby
      in \<lparr>found_location = locData,
          found_search_params =
            \<lparr>sp_maxDistanceKm = maxDistanceKm, sp_daysAhead = daysAhead,
             specific_date = (case win of Some dw \<Rightarrow> Some (targetDate dw) | None \<Rightarrow> None),
             date_filter_active = (case win of Some dw \<Rightarrow> Some True | None \<Rightarrow> None)\<rparr>,
          launches_found = length checked,
          launches = checked,
          result_weather = (if length checked = 0 then Some weatherData else None)\<rparr>)"

text \<open>
  The outer \<open>try\<close> block: \<open>Inl\<close> is an error that reaches the outer handler.  The helpers
  catch their own errors, and an error of lines 458 to 483 is caught by the inner handler
  of line 484.  What is left is \<open>targetDate.toISOString()\<close> at line 501, which throws a
  \<open>RangeError\<close> on an invalid target; before it the code has fetched the forecast, which
  leaves no trace in the result.
\<close>

definition getNearbyLaunches_try ::
  "world \<Rightarrow> string \<Rightarrow> real \<Rightarrow> nat \<Rightarrow> nat \<Rightarrow> string option \<Rightarrow> js_error + nearby_result" where
  "getNearbyLaunches_try w location maxDistanceKm daysAhead maxResults specificDate =
     (case geocodeLocation (geo_net w location) of
        None \<Rightarrow> Inr (ErrorResult (''Location not found: '' @ location) location)
      | Some locData \<Rightarrow>
          if truthy specificDate then
            (case resolve_target w (or_empty specificDate) of
               Inl err \<Rightarrow> Inr (ErrorResult (invalid_date_message (or_empty specificDate)) location)
             | Inr None \<Rightarrow> Inl range_error
             | Inr (Some target) \<Rightarrow>
                 Inr (Found (correlate w locData maxDistanceKm daysAhead maxResults
                               (Some (window_of w target)))))
          else Inr (Found (correlate w locData maxDistanceKm daysAhead maxResults None)))"

definition getNearbyLaunches ::
  "world \<Rightarrow> string \<Rightarrow> real \<Rightarrow> nat \<Rightarrow> nat \<Rightarrow> string option \<Rightarrow> nearby_result" where
  "getNearbyLaunches w location maxDistanceKm daysAhead maxResults specificDate =
     (case getNearbyLaunches_try w location maxDistanceKm daysAhead maxResults specificDate of
        Inl err \<Rightarrow> ErrorResult (''Processing error: '' @ String_of_error err) location
      | Inr result \<Rightarrow> result)"



text \<open>
  Test data: a runtime whose sine, cosine, arc tangent and square are correctly rounded.
  Their values at the arguments that the examples below reach are tabulated: in the
  order of the tables, the sine of \<open>-0.13962634015954636\<close>, \<open>1.5707963267948966\<close>,
  \<open>0.13962634015954636\<close>, \<open>-1.5707963267948966\<close> and \<open>4.3633231299858235e-7\<close>, the
  cosine of \<open>0.13962634015954636\<close> and \<open>-0.13962634015954636\<close>, and the arc tangent
  of \<open>4.363323129985685e-7 / 0.9999999999999047\<close>.  \<open>atan2\<close> is the mathematical
  function, by quadrant.
\<close>

definition atan2 :: "real \<Rightarrow> real \<Rightarrow> real" where
  "atan2 y x =
     (if 0 < x then arctan (y / x)
      else if x < 0 then (if 0 \<le> y then arctan (y / x) + pi else arctan (y / x) - pi)
      else if 0 < y then pi / 2
      else if y < 0 then - (pi / 2)
      else 0)"

definition fixture_sin :: "real \<Rightarrow> real" where
  "fixture_sin x =
     (if x = - (5030569068109113 / 2 ^ 55) then - (5014239404989977 / 2 ^ 55)
      else if x = 884279719003555 / 2 ^ 49 then 1
      else if x = 5030569068109113 / 2 ^ 55 then 5014239404989977 / 2 ^ 55
      else if x = - (884279719003555 / 2 ^ 49) then - 1
      else if x = 4121042180594985 / 2 ^ 73 then 2060521090297427 / 2 ^ 72
      else fl (sin x))"

definition fixture_cos :: "real \<Rightarrow> real" where
  "fixture_cos x =
     (if x = 5030569068109113 / 2 ^ 55 then 4459770905381437 / 2 ^ 52
      else if x = - (5030569068109113 / 2 ^ 55) then 4459770905381437 / 2 ^ 52
      else fl (cos x))"

definition fixture_atan2 :: "real \<Rightarrow> real \<Rightarrow> real" where
  "fixture_atan2 y x =
     (if y = 2060521090297427 / 2 ^ 72 \<and> x = 4503599627370067 / 2 ^ 52
      then 4121042180594985 / 2 ^ 73
      else fl (atan2 y x))"

definition fixture_math :: math_runtime where
  "fixture_math =
     \<lparr>Math_sin = fixture_sin, Math_cos = fixture_cos, Math_atan2 = fixture_atan2,
      Math_pow = (\<lambda>x y. if y = 2 then fmul x x else fl (x powr y))\<rparr>"

text \<open>
  Test data: a world on 3 November 2026, 00:00 UTC, whose host runs in UTC.  The
  geocoder knows every place but Atlantis and puts it at (0, 0); the feed has one
  launch, confirmed for 5 November 2026, 12:00 UTC, from a pad at (0, 0.00005); the
  parser reads \<open>Jan 1\<close> as 1 January 2001, as V8 does, and \<open>3/5/26\<close> as 5 March 2026.
\<close>

definition fixture_place :: geo_match where
  "fixture_place =
     \<lparr>g_name = ''Origin'', g_local_names_en = None, g_lat = 0, g_lon = 0,
      g_country = ''XX'', g_state = None\<rparr>"

definition fixture_launch :: upstream_launch where
  "fixture_launch =
     \<lparr>u_id = ''L1'', u_name = ''Test flight'', u_status_name = Some ''Go for Launch'',
      u_provider_name = Some ''SpaceX'', u_provider_type = Some ''Commercial'',
      u_net = Some ''2026-11-05T12:00:00Z'',
      u_pad_latitude = Num 0, u_pad_longitude = Num (fl (5 / 100000))\<rparr>"

definition fixture_parse :: "string \<Rightarrow> int option" where
  "fixture_parse s =
     (if s = ''2026-11-05T12:00:00Z'' then Some 1793880000000
      else if s = ''Jan 1'' then Some 978307200000
      else if s = ''3/5/26'' then Some 1772668800000
      else if s = ''2025-11-10'' then Some 1762732800000
      else None)"

definition fixture_world :: world where
  "fixture_world =
     \<lparr>geo_net = (\<lambda>q n. Responded \<lparr>status = 200, retry_after = None,
                    body = Parsed (if q = ''Atlantis'' then [] else [fixture_place])\<rparr>),
      weather_net = (\<lambda>lat lon. fixture_forecast_net [fixture_sample 1793880000 10 None]),
      launch_net = (\<lambda>n. Responded \<lparr>status = 200, retry_after = None,
                    body = Parsed \<lparr>results = Some [fixture_launch]\<rparr>\<rparr>),
      parseDate = fixture_parse,
      tz = 0,
      now_parse = 1793664000000,
      now_cutoff = 1793664000000,
      now_start = 1793664000000,
      math = fixture_math\<rparr>"

text \<open>
  The reference classification of the specification, in its words: five adverse flags
  (poor weather, high cloud cover, high humidity, heavy precipitation, heavy snow);
  \<open>Not Visible\<close> if at least three flags are true, or the heavy-snow flag is, or the
  poor-weather and the high-cloud flags both are; else \<open>Low Visibility\<close> if at least
  one flag is true; else \<open>Good\<close>.
\<close>

definition reference_flags :: "DailyWeather \<Rightarrow> bool list" where
  "reference_flags f =
     [toLowerCase (or_empty (w_main (weather f))) \<in> set bad_weather_words,
      or0 (clouds f) > 30,
      or0 (humidity f) > 80,
      or0 (precipitation f) > 5,
      or0 (snow f) > 5]"

definition reference_status :: "bool list \<Rightarrow> string" where
  "reference_status flags =
     (let n = length (filter (\<lambda>b. b) flags); poor = flags ! 0; high_cloud = flags ! 1;
          heavy_snow = flags ! 4
      in if n \<ge> 3 \<or> heavy_snow \<or> (poor \<and> high_cloud) then ''Not Visible''
         else if n \<ge> 1 then ''Low Visibility''
         else ''Good'')"

text \<open>Test data: a daily forecast with the given descriptor, clouds, humidity,
  precipitation and snow.\<close>

definition fixture_day ::
  "int \<Rightarrow> string option \<Rightarrow> real \<Rightarrow> real \<Rightarrow> real \<Rightarrow> real \<Rightarrow> DailyWeather" where
  "fixture_day raw descriptor c h p s =
     \<lparr>date = raw * 1000 + 12 * 3600000, date_raw = raw,
      temperature = \<lparr>t_day = 10, t_min = 5, t_max = 15, t_morning = 5, t_night = 7\<rparr>,
      feels_like = \<lparr>fl_day = 10, fl_morning = 5, fl_night = 7\<rparr>,
      pressure = Some 1013, humidity = Some h,
      weather = \<lparr>w_main = descriptor, w_description = None, w_icon = None\<rparr>,
      clouds = Some c, wind_speed = Some 0, wind_direction = Some 0,
      precipitation = Some p, snow = Some s\<rparr>"

section \<open>Properties\<close>

subsection \<open>Retry policy\<close>

lemma http_error_not_retryable: "\<not> retryable (http_error s)"
  by (simp add: retryable_def is_timeout_def is_connection_error_def http_error_def)

lemma first_response_terminal:
  assumes "1 \<le> maxRetries" "net 0 = Responded r" "status r = 403 \<or> status r = 401"
  shows "makeApiRequestWithRetry net maxRetries bf =
         \<lparr>returned = None, requests = 1, sleeps = []\<rparr>"
  using assms unfolding makeApiRequestWithRetry_def
  by (subst retry_loop.simps) auto

lemma first_ok_response_returned:
  assumes "1 \<le> maxRetries" "net 0 = Responded r" "ok r"
  shows "makeApiRequestWithRetry net maxRetries bf = \<lparr>returned = Some r, requests = 1, sleeps = []\<rparr>"
  using assms unfolding makeApiRequestWithRetry_def
  by (subst retry_loop.simps) (auto simp: ok_def)

text \<open>
  A run of retried network failures from attempt \<open>a\<close> up to attempt \<open>k\<close> only adds
  one backoff sleep per failure.
\<close>

lemma retry_loop_skip_failures:
  assumes "a \<le> k" "int k < maxRetries"
    and "\<forall>i. a \<le> i \<and> i < k \<longrightarrow> (\<exists>e. net i = Rejected e \<and> retryable e)"
  shows "retry_loop net maxRetries bf a ws =
         retry_loop net maxRetries bf k (ws @ map (\<lambda>i. Backoff (bf ^ i)) [a..<k])"
  using assms
proof (induction "k - a" arbitrary: a ws)
  case 0
  then show ?case by simp
next
  case (Suc n)
  then have ak: "a < k" by simp
  with Suc.prems obtain e where e: "net a = Rejected e" "retryable e" by auto
  have lt: "int a < maxRetries - 1" using ak Suc.prems(2) by simp
  have step: "retry_loop net maxRetries bf a ws =
      retry_loop net maxRetries bf (Suc a) (ws @ [Backoff (bf ^ a)])"
    using e lt by (subst retry_loop.simps) (simp add: on_error_def)
  have "retry_loop net maxRetries bf (Suc a) (ws @ [Backoff (bf ^ a)]) =
      retry_loop net maxRetries bf k
        ((ws @ [Backoff (bf ^ a)]) @ map (\<lambda>i. Backoff (bf ^ i)) [Suc a..<k])"
    using Suc.hyps Suc.prems ak by (intro Suc.hyps(1)) auto
  with step show ?case using ak by (simp add: upt_conv_Cons)
qed

text \<open>
  Claim C1, as stated, fails: a 500 followed by a 200, with a budget of three attempts.
  The 500 is thrown as a plain \<open>Error\<close>, which the handler does not retry: the call
  returns \<open>null\<close> after one request and the 200 is never fetched.
\<close>

theorem generic_http_failure_retried_counterexample:
  "makeApiRequestWithRetry
     (\<lambda>i. if i = 0 then Responded \<lparr>status = 500, retry_after = None, body = ()\<rparr>
           else Responded \<lparr>status = 200, retry_after = None, body = ()\<rparr>) 3 2
   = \<lparr>returned = None, requests = 1, sleeps = []\<rparr>"
  unfolding makeApiRequestWithRetry_def
  by (subst retry_loop.simps) (simp add: on_error_def http_error_not_retryable ok_def)

text \<open>
  Claim C1, amended: a response whose status is not 2xx and is none of 401, 403 and 429
  ends the call.  If the first \<open>k < maxRetries\<close> requests fail at the network level
  (timeout, connection refused, DNS failure), each is followed by a sleep of
  \<open>backoffFactor ^ attempt\<close> seconds; if request \<open>k\<close> is then answered with such a
  status, the call returns \<open>null\<close> at once: \<open>k + 1\<close> requests were issued, and no sleep
  follows the response.
\<close>

theorem generic_http_failure_is_terminal:
  assumes "int k < maxRetries"
    and "\<forall>i<k. \<exists>e. net i = Rejected e \<and> retryable e"
    and "net k = Responded r"
    and "\<not> ok r" "status r \<noteq> 429" "status r \<noteq> 403" "status r \<noteq> 401"
  shows "makeApiRequestWithRetry net maxRetries bf =
         \<lparr>returned = None, requests = Suc k, sleeps = map (\<lambda>i. Backoff (bf ^ i)) [0..<k]\<rparr>"
proof -
  have "retry_loop net maxRetries bf 0 [] =
        retry_loop net maxRetries bf k ([] @ map (\<lambda>i. Backoff (bf ^ i)) [0..<k])"
    using assms(1,2) by (intro retry_loop_skip_failures) auto
  also have "\<dots> =
      \<lparr>returned = None, requests = Suc k, sleeps = map (\<lambda>i. Backoff (bf ^ i)) [0..<k]\<rparr>"
    using assms by (subst retry_loop.simps) (simp add: on_error_def http_error_not_retryable)
  finally show ?thesis by (simp add: makeApiRequestWithRetry_def)
qed

theorem generic_http_failure_is_terminal_witness:
  "makeApiRequestWithRetry
     (\<lambda>i. if i < 1 then Rejected \<lparr>err_name = ''FetchError'', err_code = Some ''ETIMEDOUT'',
                                 err_message = ''timeout''\<rparr>
           else Responded \<lparr>status = 500, retry_after = None, body = ()\<rparr>) 3 2
   = \<lparr>returned = None, requests = 2, sleeps = [Backoff 1]\<rparr>"
  using generic_http_failure_is_terminal [of 1 3
      "\<lambda>i. if i < 1 then Rejected \<lparr>err_name = ''FetchError'', err_code = Some ''ETIMEDOUT'',
                                 err_message = ''timeout''\<rparr>
           else Responded \<lparr>status = 500, retry_after = None, body = ()\<rparr>"
      "\<lparr>status = 500, retry_after = None, body = ()\<rparr>" 2]
  by (simp add: retryable_def is_timeout_def ok_def)

text \<open>
  Claim C2: with a budget of at least one attempt, a first response with status 403 or
  401 makes the call return \<open>null\<close> after exactly one request and without sleeping.
\<close>

theorem forbidden_or_unauthorized_never_retried:
  assumes "1 \<le> maxRetries" "net 0 = Responded r" "status r = 403 \<or> status r = 401"
  shows "makeApiRequestWithRetry net maxRetries bf =
         \<lparr>returned = None, requests = 1, sleeps = []\<rparr>"
  using assms by (rule first_response_terminal)

theorem forbidden_or_unauthorized_never_retried_witness:
  "makeApiRequestWithRetry
     (\<lambda>i. if i = 0 then Responded \<lparr>status = 403, retry_after = None, body = ()\<rparr>
           else Responded \<lparr>status = 200, retry_after = None, body = ()\<rparr>) 3 2
   = \<lparr>returned = None, requests = 1, sleeps = []\<rparr>"
  using forbidden_or_unauthorized_never_retried [of 3
      "\<lambda>i. if i = 0 then Responded \<lparr>status = 403, retry_after = None, body = ()\<rparr>
           else Responded \<lparr>status = 200, retry_after = None, body = ()\<rparr>"
      "\<lparr>status = 403, retry_after = None, body = ()\<rparr>" 2]
  by simp


subsection \<open>Doubles\<close>

text \<open>
  Rounding to the nearest double is odd and monotone, and \<open>fl_eval\<close>, \<open>fl_eval_neg\<close>
  and \<open>fl_sqrt_eval\<close> compute it: \<open>x\<close> rounds to \<open>m * pow2 e\<close> when \<open>x\<close> lies
  between \<open>pow2 (e + 52)\<close> and \<open>pow2 (e + 53)\<close> and \<open>x / pow2 e\<close> rounds to the
  integer \<open>m\<close>.
\<close>

lemma pow2_powr: "pow2 e = 2 powr (real_of_int e)"
  unfolding pow2_def by (rule powr_int [symmetric]) simp

lemma pow2_pos [simp]: "0 < pow2 e"
  by (simp add: pow2_powr)

lemma pow2_nonneg [simp]: "0 \<le> pow2 e"
  using pow2_pos [of e] by (rule less_imp_le)

lemma pow2_add: "pow2 (a + b) = pow2 a * pow2 b"
  by (simp add: pow2_powr powr_add)

lemma pow2_mono: "a \<le> b \<Longrightarrow> pow2 a \<le> pow2 b"
  by (simp add: pow2_powr)

lemma rne_range: "\<lfloor>t\<rfloor> \<le> rne t \<and> rne t \<le> \<lfloor>t\<rfloor> + 1"
  by (simp add: rne_def Let_def)

lemma rne_of_int [simp]: "rne (real_of_int m) = m"
  by (simp add: rne_def)

lemma rne_mono: "t \<le> u \<Longrightarrow> rne t \<le> rne u"
proof -
  assume tu: "t \<le> u"
  then have fle: "\<lfloor>t\<rfloor> \<le> \<lfloor>u\<rfloor>" by (rule floor_mono)
  show ?thesis
  proof (cases "\<lfloor>t\<rfloor> = \<lfloor>u\<rfloor>")
    case True
    then show ?thesis using tu by (auto simp: rne_def Let_def)
  next
    case False
    with fle have "\<lfloor>t\<rfloor> + 1 \<le> \<lfloor>u\<rfloor>" by simp
    with rne_range [of t] rne_range [of u] show ?thesis by linarith
  qed
qed

lemma rne_neg: "rne (- t) = - rne t"
proof (cases "t = real_of_int \<lfloor>t\<rfloor>")
  case True
  then obtain m where "t = real_of_int m" ..
  then have "- t = real_of_int (- m)" by simp
  then show ?thesis using \<open>t = real_of_int m\<close> by (simp only: rne_of_int)
next
  case False
  then have c: "\<lceil>t\<rceil> = \<lfloor>t\<rfloor> + 1" by (simp add: ceiling_altdef)
  have f: "\<lfloor>- t\<rfloor> = - \<lfloor>t\<rfloor> - 1" using c by (simp add: ceiling_def)
  show ?thesis unfolding rne_def Let_def f by (auto simp: algebra_simps)
qed

lemma log_floor_bounds:
  assumes "0 < x"
  shows "pow2 \<lfloor>log 2 x\<rfloor> \<le> x \<and> x < pow2 (\<lfloor>log 2 x\<rfloor> + 1)"
proof -
  have "real_of_int \<lfloor>log 2 x\<rfloor> \<le> log 2 x" by simp
  then have "2 powr (real_of_int \<lfloor>log 2 x\<rfloor>) \<le> x" using assms by (simp add: powr_le_iff)
  moreover have "log 2 x < real_of_int (\<lfloor>log 2 x\<rfloor> + 1)" by linarith
  then have "x < 2 powr (real_of_int (\<lfloor>log 2 x\<rfloor> + 1))" using assms by (simp add: less_powr_iff)
  ultimately show ?thesis by (simp add: pow2_powr)
qed

lemma log_floor_eq:
  assumes "0 < x" "pow2 k \<le> x" "x < pow2 (k + 1)"
  shows "\<lfloor>log 2 x\<rfloor> = k"
proof -
  have "real_of_int k \<le> log 2 x" using assms by (simp add: pow2_powr powr_le_iff)
  moreover have "log 2 x < real_of_int (k + 1)" using assms by (simp add: pow2_powr less_powr_iff)
  ultimately show ?thesis by linarith
qed


lemma ulp_exponent_mono:
  assumes "0 < x" "x \<le> y"
  shows "ulp_exponent x \<le> ulp_exponent y"
proof -
  have "log 2 x \<le> log 2 y" using assms by simp
  then have "\<lfloor>log 2 x\<rfloor> \<le> \<lfloor>log 2 y\<rfloor>" by (rule floor_mono)
  then show ?thesis using assms by (simp add: ulp_exponent_def)
qed

lemma scaled_upper:
  assumes "0 < x"
  shows "x / pow2 (ulp_exponent x) < 2 ^ 53"
proof -
  define k where "k = \<lfloor>log 2 x\<rfloor>"
  have "k - 52 \<le> ulp_exponent x" using assms by (simp add: ulp_exponent_def k_def)
  then have "pow2 (k - 52) \<le> pow2 (ulp_exponent x)" by (rule pow2_mono)
  then have "x / pow2 (ulp_exponent x) \<le> x / pow2 (k - 52)"
    using assms by (simp add: frac_le)
  also have "x < pow2 (k + 1)" using log_floor_bounds [OF assms] by (simp add: k_def)
  then have "x / pow2 (k - 52) < pow2 (k + 1) / pow2 (k - 52)"
    by (simp add: divide_strict_right_mono)
  also have "pow2 (k + 1) = pow2 53 * pow2 (k - 52)"
  proof -
    have "k + 1 = 53 + (k - 52)" by simp
    then show ?thesis by (simp only: pow2_add)
  qed
  also have "pow2 53 * pow2 (k - 52) / pow2 (k - 52) = 2 ^ 53" by (simp add: pow2_def)
  finally show ?thesis .
qed

lemma scaled_lower:
  assumes "0 < x" "- 1074 < ulp_exponent x"
  shows "2 ^ 52 \<le> x / pow2 (ulp_exponent x)"
proof -
  define k where "k = \<lfloor>log 2 x\<rfloor>"
  have e: "ulp_exponent x = k - 52" using assms by (simp add: ulp_exponent_def k_def max_def split: if_splits)
  have "pow2 k \<le> x" using log_floor_bounds [OF assms(1)] by (simp add: k_def)
  moreover have "pow2 k = pow2 52 * pow2 (k - 52)"
  proof -
    have "k = 52 + (k - 52)" by simp
    then show ?thesis using pow2_add [of 52 "k - 52"] by simp
  qed
  ultimately have "pow2 52 * pow2 (k - 52) \<le> x" by simp
  then have "pow2 52 \<le> x / pow2 (k - 52)" by (simp add: pos_le_divide_eq)
  then show ?thesis unfolding e by (simp add: pow2_def)
qed

lemma fl_pos:
  assumes "0 < x"
  shows "fl x = real_of_int (rne (x / pow2 (ulp_exponent x))) * pow2 (ulp_exponent x)"
  using assms by (simp add: fl_def)

lemma ulp_exponent_neg [simp]: "ulp_exponent (- x) = ulp_exponent x"
  by (simp add: ulp_exponent_def)

lemma fl_neg: "fl (- x) = - fl x"
  by (simp add: fl_def sgn_if)

lemma fl_zero [simp]: "fl 0 = 0"
  by (simp add: fl_def)

lemma fl_nonneg: "0 \<le> x \<Longrightarrow> 0 \<le> fl x"
proof (cases "x = 0")
  case True then show ?thesis by simp
next
  case False
  assume "0 \<le> x"
  with False have x: "0 < x" by simp
  have "0 \<le> x / pow2 (ulp_exponent x)"
    using x pow2_pos [of "ulp_exponent x"] by (intro divide_nonneg_pos) auto
  then have "rne 0 \<le> rne (x / pow2 (ulp_exponent x))" by (rule rne_mono)
  then have "0 \<le> rne (x / pow2 (ulp_exponent x))" using rne_of_int [of 0] by simp
  then show ?thesis unfolding fl_pos [OF x] by simp
qed

lemma fl_mono_pos:
  assumes "0 < x" "x \<le> y"
  shows "fl x \<le> fl y"
proof -
  have y: "0 < y" using assms by simp
  define ex where "ex = ulp_exponent x"
  define ey where "ey = ulp_exponent y"
  have le: "ex \<le> ey" unfolding ex_def ey_def by (rule ulp_exponent_mono [OF assms])
  show ?thesis
  proof (cases "ex = ey")
    case True
    have "x / pow2 ex \<le> y / pow2 ex"
      using assms(2) pow2_pos [of ex] by (intro divide_right_mono) auto
    then have "rne (x / pow2 ex) \<le> rne (y / pow2 ex)" by (rule rne_mono)
    then have "real_of_int (rne (x / pow2 ex)) * pow2 ex \<le> real_of_int (rne (y / pow2 ex)) * pow2 ex"
      by (simp add: mult_right_mono)
    then show ?thesis unfolding fl_pos [OF assms(1)] fl_pos [OF y] ex_def [symmetric]
      ey_def [symmetric] True [symmetric] .
  next
    case False
    with le have lt: "ex + 1 \<le> ey" by simp
    have "ulp_exponent x \<ge> - 1074" by (simp add: ulp_exponent_def)
    then have ylow: "- 1074 < ey" using lt by (simp add: ex_def)
    have "x / pow2 ex \<le> 2 ^ 53" using scaled_upper [OF assms(1)] by (simp add: ex_def)
    then have "rne (x / pow2 ex) \<le> rne (2 ^ 53)" by (rule rne_mono)
    moreover have "(2::real) ^ 53 = real_of_int (2 ^ 53)" by simp
    then have "rne (2 ^ 53) = 2 ^ 53" by (simp only: rne_of_int)
    ultimately have a: "real_of_int (rne (x / pow2 ex)) \<le> 2 ^ 53"
      by (metis of_int_le_iff of_int_numeral of_int_power)
    have "2 ^ 52 \<le> y / pow2 ey" using scaled_lower [OF y] ylow by (simp add: ey_def)
    then have "rne (2 ^ 52) \<le> rne (y / pow2 ey)" by (rule rne_mono)
    moreover have "(2::real) ^ 52 = real_of_int (2 ^ 52)" by simp
    then have "rne (2 ^ 52) = 2 ^ 52" by (simp only: rne_of_int)
    ultimately have b: "2 ^ 52 \<le> real_of_int (rne (y / pow2 ey))"
      by (metis of_int_le_iff of_int_numeral of_int_power)
    have "real_of_int (rne (x / pow2 ex)) * pow2 ex \<le> 2 ^ 53 * pow2 ex"
      using a by (simp add: mult_right_mono)
    also have "\<dots> = 2 ^ 52 * pow2 (ex + 1)" using pow2_add [of ex 1] by (simp add: pow2_def)
    also have "\<dots> \<le> 2 ^ 52 * pow2 ey" using pow2_mono [OF lt] by simp
    also have "\<dots> \<le> real_of_int (rne (y / pow2 ey)) * pow2 ey"
      using b by (simp add: mult_right_mono)
    finally show ?thesis unfolding fl_pos [OF assms(1)] fl_pos [OF y] ex_def [symmetric]
      ey_def [symmetric] .
  qed
qed

lemma fl_mono: "x \<le> y \<Longrightarrow> fl x \<le> fl y"
proof -
  assume xy: "x \<le> y"
  consider "0 < x" | "x \<le> 0" "0 \<le> y" | "y < 0" by linarith
  then show ?thesis
  proof cases
    case 1
    then show ?thesis using xy by (rule fl_mono_pos)
  next
    case 2
    have "fl x = - fl (- x)" using fl_neg [of "- x"] by simp
    moreover have "0 \<le> fl (- x)" using 2 by (intro fl_nonneg) simp
    moreover have "0 \<le> fl y" using 2 by (intro fl_nonneg)
    ultimately show ?thesis by linarith
  next
    case 3
    then have "fl (- y) \<le> fl (- x)" using xy by (intro fl_mono_pos) auto
    then show ?thesis by (simp add: fl_neg)
  qed
qed

lemma fl_eval:
  assumes "0 < x" "pow2 (e + 52) \<le> x" "x < pow2 (e + 53)" "- 1074 \<le> e"
    and "rne (x / pow2 e) = m"
  shows "fl x = real_of_int m * pow2 e"
proof -
  have "\<lfloor>log 2 x\<rfloor> = e + 52" using assms(1,2,3) by (intro log_floor_eq) (simp_all add: add.commute add.left_commute)
  then have "ulp_exponent x = e" using assms(1,4) by (simp add: ulp_exponent_def)
  then show ?thesis using assms(1,5) by (simp add: fl_pos)
qed

lemma fl_eval_neg:
  assumes "x < 0" "pow2 (e + 52) \<le> - x" "- x < pow2 (e + 53)" "- 1074 \<le> e"
    and "rne (- x / pow2 e) = m"
  shows "fl x = - (real_of_int m * pow2 e)"
proof -
  have "fl (- x) = real_of_int m * pow2 e"
    using assms by (intro fl_eval) simp_all
  then show ?thesis using fl_neg [of "- x"] by simp
qed

lemma rne_near:
  assumes "real_of_int m - 1 / 2 < t" "t < real_of_int m + 1 / 2"
  shows "rne t = m"
proof (cases "real_of_int m \<le> t")
  case True
  then have f: "\<lfloor>t\<rfloor> = m" using assms(2) by (intro floor_unique) auto
  show ?thesis using assms(2) by (simp add: rne_def Let_def f)
next
  case False
  then have f: "\<lfloor>t\<rfloor> = m - 1" using assms(1) by (intro floor_unique) auto
  show ?thesis using assms(1) False by (simp add: rne_def Let_def f)
qed

lemma fl_sqrt_eval:
  assumes m: "2 ^ 52 < m" "m < 2 ^ 53" and e: "- 1074 \<le> e"
    and lo: "((real_of_int m - 1 / 2) * pow2 e)\<^sup>2 < a"
    and hi: "a < ((real_of_int m + 1 / 2) * pow2 e)\<^sup>2"
  shows "fl (sqrt a) = real_of_int m * pow2 e"
proof -
  have mr: "2 ^ 52 + 1 \<le> real_of_int m" "real_of_int m \<le> 2 ^ 53 - 1"
  proof -
    have "2 ^ 52 + 1 \<le> m" using m(1) by simp
    then have "real_of_int (2 ^ 52 + 1) \<le> real_of_int m" by (simp only: of_int_le_iff)
    then show "2 ^ 52 + 1 \<le> real_of_int m" by simp
    have "m \<le> 2 ^ 53 - 1" using m(2) by simp
    then have "real_of_int m \<le> real_of_int (2 ^ 53 - 1)" by (simp only: of_int_le_iff)
    then show "real_of_int m \<le> 2 ^ 53 - 1" by simp
  qed
  define L where "L = (real_of_int m - 1 / 2) * pow2 e"
  define H where "H = (real_of_int m + 1 / 2) * pow2 e"
  have L0: "0 \<le> L" unfolding L_def using mr(1) by (intro mult_nonneg_nonneg) auto
  have H0: "0 \<le> H" unfolding H_def using mr(1) by (intro mult_nonneg_nonneg) auto
  have a0: "0 \<le> a" using lo zero_le_power2 [of L] unfolding L_def by linarith
  have s1: "L < sqrt a" using lo L0 unfolding L_def [symmetric] by (intro real_less_rsqrt)
  have s2: "sqrt a < H" using hi H0 unfolding H_def [symmetric] by (intro real_less_lsqrt) auto
  have pos: "0 < sqrt a" using L0 s1 by linarith
  have t1: "real_of_int m - 1 / 2 < sqrt a / pow2 e"
    using s1 pow2_pos [of e] unfolding L_def by (simp add: pos_less_divide_eq)
  have t2: "sqrt a / pow2 e < real_of_int m + 1 / 2"
    using s2 pow2_pos [of e] unfolding H_def by (simp add: pos_divide_less_eq)
  have r: "rne (sqrt a / pow2 e) = m" using t1 t2 by (rule rne_near)
  have p52: "pow2 (e + 52) = 2 ^ 52 * pow2 e" using pow2_add [of 52 e] by (simp add: pow2_def add.commute)
  have p53: "pow2 (e + 53) = 2 ^ 53 * pow2 e" using pow2_add [of 53 e] by (simp add: pow2_def add.commute)
  have "2 ^ 52 * pow2 e \<le> L" unfolding L_def using mr(1) by (intro mult_right_mono) auto
  then have b1: "pow2 (e + 52) \<le> sqrt a" using s1 unfolding p52 by linarith
  have "H \<le> 2 ^ 53 * pow2 e" unfolding H_def using mr(2) by (intro mult_right_mono) auto
  then have b2: "sqrt a < pow2 (e + 53)" using s2 unfolding p53 by linarith
  show ?thesis using pos b1 b2 e r by (rule fl_eval)
qed

lemma fl_one: "fl 1 = 1"
  by (rule fl_eval [where e = "- 52" and m = "2 ^ 52", THEN trans]) (simp_all add: pow2_def rne_def)

lemma Math_round_mono: "x \<le> y \<Longrightarrow> Math_round x \<le> Math_round y"
  unfolding Math_round_def by (simp add: floor_mono)

lemma round1_mono: "x \<le> y \<Longrightarrow> round1 x \<le> round1 y"
proof -
  assume "x \<le> y"
  then have "x * 10 \<le> y * 10" by simp
  then have "fmul x 10 \<le> fmul y 10" unfolding fmul_def by (rule fl_mono)
  then have "Math_round (fmul x 10) \<le> Math_round (fmul y 10)" by (rule Math_round_mono)
  then have "real_of_int (Math_round (fmul x 10)) / 10 \<le> real_of_int (Math_round (fmul y 10)) / 10"
    by simp
  then show ?thesis unfolding round1_def fdiv_def by (rule fl_mono)
qed

subsection \<open>Great-circle distance\<close>

text \<open>
  From a point to itself the distance is 0, on every runtime whose sine and square of 0
  are 0 and whose \<open>atan2(0, 1)\<close> is 0.
\<close>

lemma calculateDistance_same_point:
  assumes "Math_sin rt 0 = 0" "Math_pow rt 0 2 = 0" "Math_atan2 rt 0 1 = 0"
  shows "calculateDistance rt lat lon lat lon = Some 0"
  using assms
  by (simp add: calculateDistance_def toRad_def fsub_def fmul_def fdiv_def fadd_def Math_sqrt_def
      fl_one)

text \<open>
  The evaluation of \<open>calculateDistance\<close> between (8, -100) and (-8, 80), two points
  opposite each other on the globe, one operation at a time.
\<close>

lemma antipodal_fsub_1: "fsub (- 8) 8 = - 16"
  unfolding fsub_def
  by (rule fl_eval_neg [where e = "- 48" and m = 4503599627370496, THEN trans])
    (simp_all add: pow2_def rne_def)

lemma antipodal_fmul_1: "fmul (- 16) Math_PI = - (884279719003555 / 2 ^ 44)"
  unfolding fmul_def Math_PI_def
  by (rule fl_eval_neg [where e = "- 47" and m = 7074237752028440, THEN trans])
    (simp_all add: pow2_def rne_def)

lemma antipodal_fdiv_1: "fdiv (- (884279719003555 / 2 ^ 44)) 180 = - (5030569068109113 / 2 ^ 54)"
  unfolding fdiv_def
  by (rule fl_eval_neg [where e = "- 54" and m = 5030569068109113, THEN trans])
    (simp_all add: pow2_def rne_def)

lemma antipodal_fsub_2: "fsub 80 (- 100) = 180"
  unfolding fsub_def
  by (rule fl_eval [where e = "- 45" and m = 6333186975989760, THEN trans])
    (simp_all add: pow2_def rne_def)

lemma antipodal_fmul_2: "fmul 180 Math_PI = 4974073419394997 / 2 ^ 43"
  unfolding fmul_def Math_PI_def
  by (rule fl_eval [where e = "- 43" and m = 4974073419394997, THEN trans])
    (simp_all add: pow2_def rne_def)

lemma antipodal_fdiv_2: "fdiv (4974073419394997 / 2 ^ 43) 180 = 884279719003555 / 2 ^ 48"
  unfolding fdiv_def
  by (rule fl_eval [where e = "- 51" and m = 7074237752028440, THEN trans])
    (simp_all add: pow2_def rne_def)

lemma antipodal_fdiv_3: "fdiv (- (5030569068109113 / 2 ^ 54)) 2 = - (5030569068109113 / 2 ^ 55)"
  unfolding fdiv_def
  by (rule fl_eval_neg [where e = "- 55" and m = 5030569068109113, THEN trans])
    (simp_all add: pow2_def rne_def)

lemma antipodal_sin_1: "Math_sin fixture_math (- (5030569068109113 / 2 ^ 55)) = - (5014239404989977 / 2 ^ 55)"
  by (simp add: fixture_math_def fixture_sin_def)

lemma fixture_pow_square: "Math_pow fixture_math x 2 = fmul x x"
  by (simp add: fixture_math_def)

lemma antipodal_fmul_3: "fmul (- (5014239404989977 / 2 ^ 55)) (- (5014239404989977 / 2 ^ 55)) = 1395694493897217 / 2 ^ 56"
  unfolding fmul_def
  by (rule fl_eval [where e = "- 58" and m = 5582777975588868, THEN trans])
    (simp_all add: pow2_def rne_def)

lemma antipodal_fmul_4: "fmul 8 Math_PI = 884279719003555 / 2 ^ 45"
  unfolding fmul_def Math_PI_def
  by (rule fl_eval [where e = "- 48" and m = 7074237752028440, THEN trans])
    (simp_all add: pow2_def rne_def)

lemma antipodal_fdiv_4: "fdiv (884279719003555 / 2 ^ 45) 180 = 5030569068109113 / 2 ^ 55"
  unfolding fdiv_def
  by (rule fl_eval [where e = "- 55" and m = 5030569068109113, THEN trans])
    (simp_all add: pow2_def rne_def)

lemma antipodal_cos_1: "Math_cos fixture_math (5030569068109113 / 2 ^ 55) = 4459770905381437 / 2 ^ 52"
  by (simp add: fixture_math_def fixture_cos_def)

lemma antipodal_fmul_5: "fmul (- 8) Math_PI = - (884279719003555 / 2 ^ 45)"
  unfolding fmul_def Math_PI_def
  by (rule fl_eval_neg [where e = "- 48" and m = 7074237752028440, THEN trans])
    (simp_all add: pow2_def rne_def)

lemma antipodal_fdiv_5: "fdiv (- (884279719003555 / 2 ^ 45)) 180 = - (5030569068109113 / 2 ^ 55)"
  unfolding fdiv_def
  by (rule fl_eval_neg [where e = "- 55" and m = 5030569068109113, THEN trans])
    (simp_all add: pow2_def rne_def)

lemma antipodal_cos_2: "Math_cos fixture_math (- (5030569068109113 / 2 ^ 55)) = 4459770905381437 / 2 ^ 52"
  by (simp add: fixture_math_def fixture_cos_def)

lemma antipodal_fmul_6: "fmul (4459770905381437 / 2 ^ 52) (4459770905381437 / 2 ^ 52) = 8832737443003841 / 2 ^ 53"
  unfolding fmul_def
  by (rule fl_eval [where e = "- 53" and m = 8832737443003841, THEN trans])
    (simp_all add: pow2_def rne_def)

lemma antipodal_fdiv_6: "fdiv (884279719003555 / 2 ^ 48) 2 = 884279719003555 / 2 ^ 49"
  unfolding fdiv_def
  by (rule fl_eval [where e = "- 52" and m = 7074237752028440, THEN trans])
    (simp_all add: pow2_def rne_def)

lemma antipodal_sin_2: "Math_sin fixture_math (884279719003555 / 2 ^ 49) = 1"
  by (simp add: fixture_math_def fixture_sin_def)

lemma antipodal_fmul_7: "fmul 1 1 = 1"
  unfolding fmul_def
  by (rule fl_eval [where e = "- 52" and m = 4503599627370496, THEN trans])
    (simp_all add: pow2_def rne_def)

lemma antipodal_fmul_8: "fmul (8832737443003841 / 2 ^ 53) 1 = 8832737443003841 / 2 ^ 53"
  unfolding fmul_def
  by (rule fl_eval [where e = "- 53" and m = 8832737443003841, THEN trans])
    (simp_all add: pow2_def rne_def)

lemma antipodal_fadd_1: "fadd (1395694493897217 / 2 ^ 56) (8832737443003841 / 2 ^ 53) = 4503599627370497 / 2 ^ 52"
  unfolding fadd_def
  by (rule fl_eval [where e = "- 52" and m = 4503599627370497, THEN trans])
    (simp_all add: pow2_def rne_def)

lemma antipodal_fsub_3: "fsub 1 (4503599627370497 / 2 ^ 52) = - (1 / 2 ^ 52)"
  unfolding fsub_def
  by (rule fl_eval_neg [where e = "- 104" and m = 4503599627370496, THEN trans])
    (simp_all add: pow2_def rne_def)

lemma antipodal_fsub_4: "fsub 8 (- 8) = 16"
  unfolding fsub_def
  by (rule fl_eval [where e = "- 48" and m = 4503599627370496, THEN trans])
    (simp_all add: pow2_def rne_def)

lemma antipodal_fmul_9: "fmul 16 Math_PI = 884279719003555 / 2 ^ 44"
  unfolding fmul_def Math_PI_def
  by (rule fl_eval [where e = "- 47" and m = 7074237752028440, THEN trans])
    (simp_all add: pow2_def rne_def)

lemma antipodal_fdiv_7: "fdiv (884279719003555 / 2 ^ 44) 180 = 5030569068109113 / 2 ^ 54"
  unfolding fdiv_def
  by (rule fl_eval [where e = "- 54" and m = 5030569068109113, THEN trans])
    (simp_all add: pow2_def rne_def)

lemma antipodal_fsub_5: "fsub (- 100) 80 = - 180"
  unfolding fsub_def
  by (rule fl_eval_neg [where e = "- 45" and m = 6333186975989760, THEN trans])
    (simp_all add: pow2_def rne_def)

lemma antipodal_fmul_10: "fmul (- 180) Math_PI = - (4974073419394997 / 2 ^ 43)"
  unfolding fmul_def Math_PI_def
  by (rule fl_eval_neg [where e = "- 43" and m = 4974073419394997, THEN trans])
    (simp_all add: pow2_def rne_def)

lemma antipodal_fdiv_8: "fdiv (- (4974073419394997 / 2 ^ 43)) 180 = - (884279719003555 / 2 ^ 48)"
  unfolding fdiv_def
  by (rule fl_eval_neg [where e = "- 51" and m = 7074237752028440, THEN trans])
    (simp_all add: pow2_def rne_def)

lemma antipodal_fdiv_9: "fdiv (5030569068109113 / 2 ^ 54) 2 = 5030569068109113 / 2 ^ 55"
  unfolding fdiv_def
  by (rule fl_eval [where e = "- 55" and m = 5030569068109113, THEN trans])
    (simp_all add: pow2_def rne_def)

lemma antipodal_sin_3: "Math_sin fixture_math (5030569068109113 / 2 ^ 55) = 5014239404989977 / 2 ^ 55"
  by (simp add: fixture_math_def fixture_sin_def)

lemma antipodal_fmul_11: "fmul (5014239404989977 / 2 ^ 55) (5014239404989977 / 2 ^ 55) = 1395694493897217 / 2 ^ 56"
  unfolding fmul_def
  by (rule fl_eval [where e = "- 58" and m = 5582777975588868, THEN trans])
    (simp_all add: pow2_def rne_def)

lemma antipodal_fdiv_10: "fdiv (- (884279719003555 / 2 ^ 48)) 2 = - (884279719003555 / 2 ^ 49)"
  unfolding fdiv_def
  by (rule fl_eval_neg [where e = "- 52" and m = 7074237752028440, THEN trans])
    (simp_all add: pow2_def rne_def)

lemma antipodal_sin_4: "Math_sin fixture_math (- (884279719003555 / 2 ^ 49)) = - 1"
  by (simp add: fixture_math_def fixture_sin_def)

lemma antipodal_fmul_12: "fmul (- 1) (- 1) = 1"
  unfolding fmul_def
  by (rule fl_eval [where e = "- 52" and m = 4503599627370496, THEN trans])
    (simp_all add: pow2_def rne_def)

lemma antipodal_forward:
  "calculateDistance fixture_math 8 (- 100) (- 8) 80 =
     (case Math_sqrt (4503599627370497 / 2 ^ 52) of
        None \<Rightarrow> None
      | Some y \<Rightarrow>
          (case Math_sqrt (- (1 / 2 ^ 52)) of
             None \<Rightarrow> None
           | Some x \<Rightarrow> Some (fmul 6371 (fmul 2 (Math_atan2 fixture_math y x)))))"
  by (simp only: calculateDistance_def Let_def toRad_def
      antipodal_fsub_1 antipodal_fmul_1 antipodal_fdiv_1 antipodal_fsub_2 antipodal_fmul_2
      antipodal_fdiv_2 antipodal_fdiv_3 antipodal_sin_1 fixture_pow_square antipodal_fmul_3
      antipodal_fmul_4 antipodal_fdiv_4 antipodal_cos_1 antipodal_fmul_5 antipodal_fdiv_5
      antipodal_cos_2 antipodal_fmul_6 antipodal_fdiv_6 antipodal_sin_2 antipodal_fmul_7
      antipodal_fmul_8 antipodal_fadd_1 antipodal_fsub_3)

lemma antipodal_backward:
  "calculateDistance fixture_math (- 8) 80 8 (- 100) =
     (case Math_sqrt (4503599627370497 / 2 ^ 52) of
        None \<Rightarrow> None
      | Some y \<Rightarrow>
          (case Math_sqrt (- (1 / 2 ^ 52)) of
             None \<Rightarrow> None
           | Some x \<Rightarrow> Some (fmul 6371 (fmul 2 (Math_atan2 fixture_math y x)))))"
  by (simp only: calculateDistance_def Let_def toRad_def
      antipodal_fsub_4 antipodal_fmul_9 antipodal_fdiv_7 antipodal_fsub_5 antipodal_fmul_10
      antipodal_fdiv_8 antipodal_fdiv_9 antipodal_sin_3 fixture_pow_square
      antipodal_fmul_11 antipodal_fmul_5 antipodal_fdiv_5 antipodal_cos_2 antipodal_fmul_4
      antipodal_fdiv_4 antipodal_cos_1 antipodal_fmul_6 antipodal_fdiv_10 antipodal_sin_4
      antipodal_fmul_12 antipodal_fmul_8 antipodal_fadd_1 antipodal_fsub_3)

text \<open>
  Claim C9 fails on the code at a pair of valid coordinates: between (8, -100) and
  (-8, 80) the haversine term \<open>a\<close> is computed as \<open>1 + 2 ^ -52\<close>, the double after 1,
  so that \<open>Math.sqrt(1 - a)\<close> is \<open>NaN\<close>, and so is the distance, in both directions.
  A \<open>NaN\<close> is no distance, and it is not equal to itself.
\<close>

theorem calculateDistance_antipodal_is_NaN:
  "valid_coordinate 8 (- 100) \<and> valid_coordinate (- 8) 80 \<and>
   calculateDistance fixture_math 8 (- 100) (- 8) 80 = None \<and>
   calculateDistance fixture_math (- 8) 80 8 (- 100) = None"
proof -
  have "calculateDistance fixture_math 8 (- 100) (- 8) 80 = None"
    unfolding antipodal_forward by (simp add: Math_sqrt_def)
  moreover have "calculateDistance fixture_math (- 8) 80 8 (- 100) = None"
    unfolding antipodal_backward by (simp add: Math_sqrt_def)
  ultimately show ?thesis by (simp add: valid_coordinate_def)
qed

subsection \<open>Forecast aggregation\<close>

lemma foldl_push_same:
  "\<forall>i\<in>set ys. dayKey_of_sample i = d \<Longrightarrow>
   foldl (\<lambda>dailyMap item. push_item (dayKey_of_sample item) item dailyMap) [(d, xs)] ys = [(d, xs @ ys)]"
  by (induction ys arbitrary: xs) auto

lemma group_by_day_single:
  assumes "items \<noteq> []" "\<forall>i\<in>set items. dayKey_of_sample i = d"
  shows "group_by_day items = [(d, items)]"
proof -
  from assms(1) obtain x xs where items: "items = x # xs" by (cases items) auto
  with assms(2) have "dayKey_of_sample x = d" "\<forall>i\<in>set xs. dayKey_of_sample i = d" by auto
  then show ?thesis
    unfolding group_by_day_def items using foldl_push_same [of xs d "[x]"] by simp
qed

lemma fold_min_le: "fold min xs (a::real) \<le> a"
proof (induction xs arbitrary: a)
  case Nil then show ?case by simp
next
  case (Cons y ys)
  have "fold min ys (min y a) \<le> min y a" by (rule Cons.IH)
  then show ?case by simp
qed

lemma fold_min_le_elem: "x \<in> set xs \<Longrightarrow> fold min xs (a::real) \<le> x"
proof (induction xs arbitrary: a)
  case Nil then show ?case by simp
next
  case (Cons y ys)
  show ?case
  proof (cases "x = y")
    case True
    have "fold min ys (min y a) \<le> min y a" by (rule fold_min_le)
    then show ?thesis using True by simp
  next
    case False
    with Cons show ?thesis by simp
  qed
qed

lemma fold_max_ge: "(a::real) \<le> fold max xs a"
proof (induction xs arbitrary: a)
  case Nil then show ?case by simp
next
  case (Cons y ys)
  have "max y a \<le> fold max ys (max y a)" by (rule Cons.IH)
  then show ?case by simp
qed

lemma fold_max_ge_elem: "x \<in> set xs \<Longrightarrow> x \<le> fold max xs (a::real)"
proof (induction xs arbitrary: a)
  case Nil then show ?case by simp
next
  case (Cons y ys)
  show ?case
  proof (cases "x = y")
    case True
    have "max y a \<le> fold max ys (max y a)" by (rule fold_max_ge)
    then show ?thesis using True by simp
  next
    case False
    with Cons show ?thesis by simp
  qed
qed

lemma fold_min_le_fold_max: "fold min xs a \<le> fold max xs (a::real)"
  using fold_min_le [of xs a] fold_max_ge [of a xs] by simp

lemma make_forecast_nonempty:
  assumes "items \<noteq> []"
  shows "\<exists>f. make_forecast d items = Inr f \<and>
     t_day (temperature f) =
       round1 (fdiv (foldl fadd 0 (map main_temp items)) (real (length items))) \<and>
     t_min (temperature f) = round1 (fold min (tl (map main_temp items)) (hd (map main_temp items))) \<and>
     t_max (temperature f) = round1 (fold max (tl (map main_temp items)) (hd (map main_temp items))) \<and>
     precipitation f = Some (foldl (\<lambda>sum i. fadd sum (or0 (rain_3h i))) 0 items) \<and>
     snow f = Some (foldl (\<lambda>sum i. fadd sum (or0 (snow_3h i))) 0 items)"
proof -
  from assms obtain x xs where "items = x # xs" by (cases items) auto
  then show ?thesis by (simp add: Let_def)
qed

lemma aggregate_single_day:
  assumes "items \<noteq> []" "\<forall>i\<in>set items. dayKey_of_sample i = d" "1 \<le> days"
  shows "\<exists>f. aggregate days items = Inr [f] \<and> make_forecast d items = Inr f"
proof -
  from make_forecast_nonempty [OF assms(1), of d] obtain f where f: "make_forecast d items = Inr f"
    by blast
  have "aggregate days items = daily_loop days 0 [(d, items)]"
    by (simp add: aggregate_def group_by_day_single [OF assms(1,2)])
  also have "\<dots> = Inr [f]" using assms(3) f by simp
  finally show ?thesis using f by blast
qed

lemma fixture_net_returns:
  "returned (makeApiRequestWithRetry (fixture_forecast_net items) 3 2) =
     Some \<lparr>status = 200, retry_after = None,
            body = Parsed \<lparr>payload_city = None, payload_list = Some items\<rparr>\<rparr>"
  using first_ok_response_returned [of 3 "fixture_forecast_net items"
      "\<lparr>status = 200, retry_after = None,
            body = Parsed \<lparr>payload_city = None, payload_list = Some items\<rparr>\<rparr>" 2]
  by (simp add: fixture_forecast_net_def ok_def)

lemma single_day_forecast:
  assumes "returned (makeApiRequestWithRetry net 3 2) = Some response"
    and "body response = Parsed data" and "payload_list data = Some items"
    and "items \<noteq> []" and "\<forall>i\<in>set items. dayKey_of_sample i = d" and "1 \<le> days"
  shows "\<exists>f. forecasts (getWeatherData net lat lon days) = [f] \<and>
     t_min (temperature f) = round1 (fold min (tl (map main_temp items)) (hd (map main_temp items))) \<and>
     t_max (temperature f) = round1 (fold max (tl (map main_temp items)) (hd (map main_temp items))) \<and>
     t_day (temperature f) =
       round1 (fdiv (foldl fadd 0 (map main_temp items)) (real (length items))) \<and>
     t_min (temperature f) \<le> t_max (temperature f) \<and>
     (fold min (tl (map main_temp items)) (hd (map main_temp items))
        \<le> fdiv (foldl fadd 0 (map main_temp items)) (real (length items)) \<and>
      fdiv (foldl fadd 0 (map main_temp items)) (real (length items))
        \<le> fold max (tl (map main_temp items)) (hd (map main_temp items)) \<longrightarrow>
      t_min (temperature f) \<le> t_day (temperature f) \<and>
      t_day (temperature f) \<le> t_max (temperature f)) \<and>
     precipitation f = Some (foldl (\<lambda>sum i. fadd sum (or0 (rain_3h i))) 0 items)"
proof -
  from aggregate_single_day [OF assms(4,5,6)] obtain f where
    agg: "aggregate days items = Inr [f]" and mk: "make_forecast d items = Inr f" by blast
  define temps where "temps = map main_temp items"
  define avg where "avg = fdiv (foldl fadd 0 temps) (real (length items))"
  from make_forecast_nonempty [OF assms(4), of d] mk have
    day: "t_day (temperature f) = round1 avg" and
    mn: "t_min (temperature f) = round1 (fold min (tl temps) (hd temps))" and
    mx: "t_max (temperature f) = round1 (fold max (tl temps) (hd temps))" and
    pr: "precipitation f = Some (foldl (\<lambda>sum i. fadd sum (or0 (rain_3h i))) 0 items)"
    unfolding temps_def avg_def by auto
  have order: "t_min (temperature f) \<le> t_max (temperature f)"
    unfolding mn mx by (rule round1_mono) (rule fold_min_le_fold_max)
  have between: "t_min (temperature f) \<le> t_day (temperature f) \<and>
      t_day (temperature f) \<le> t_max (temperature f)"
    if "fold min (tl temps) (hd temps) \<le> avg" "avg \<le> fold max (tl temps) (hd temps)"
    unfolding day mn mx using that by (simp add: round1_mono)
  have one: "forecasts (getWeatherData net lat lon days) = [f]"
    using assms(1,2,3) agg by (simp add: getWeatherData_def)
  show ?thesis
    using one day mn mx pr order between unfolding temps_def avg_def by blast
qed

text \<open>
  The day of three samples of 0.35 degrees, one operation at a time: their sum is
  1.0499999999999998, the mean 0.3499999999999999, ten times the mean
  3.499999999999999, which \<open>Math.round\<close> takes to 3; ten times 0.35 is 3.5, which it
  takes to 4.
\<close>

lemma mean_fl_1: "fl (35 / 100) = 3152519739159347 / 2 ^ 53"
  by (rule fl_eval [where e = "- 54" and m = 6305039478318694, THEN trans])
    (simp_all add: pow2_def rne_def)

lemma mean_fadd_1: "fadd 0 (3152519739159347 / 2 ^ 53) = 3152519739159347 / 2 ^ 53"
  unfolding fadd_def
  by (rule fl_eval [where e = "- 54" and m = 6305039478318694, THEN trans])
    (simp_all add: pow2_def rne_def)

lemma mean_fadd_2: "fadd (3152519739159347 / 2 ^ 53) (3152519739159347 / 2 ^ 53) = 3152519739159347 / 2 ^ 52"
  unfolding fadd_def
  by (rule fl_eval [where e = "- 53" and m = 6305039478318694, THEN trans])
    (simp_all add: pow2_def rne_def)

lemma mean_fadd_3: "fadd (3152519739159347 / 2 ^ 52) (3152519739159347 / 2 ^ 53) = 1182194902184755 / 2 ^ 50"
  unfolding fadd_def
  by (rule fl_eval [where e = "- 52" and m = 4728779608739020, THEN trans])
    (simp_all add: pow2_def rne_def)

lemma mean_fdiv_1: "fdiv (1182194902184755 / 2 ^ 50) 3 = 6305039478318693 / 2 ^ 54"
  unfolding fdiv_def
  by (rule fl_eval [where e = "- 54" and m = 6305039478318693, THEN trans])
    (simp_all add: pow2_def rne_def)

lemma mean_fmul_1: "fmul (6305039478318693 / 2 ^ 54) 10 = 3940649673949183 / 2 ^ 50"
  unfolding fmul_def
  by (rule fl_eval [where e = "- 51" and m = 7881299347898366, THEN trans])
    (simp_all add: pow2_def rne_def)

lemma mean_round_1: "Math_round (3940649673949183 / 2 ^ 50) = 3"
  unfolding Math_round_def by (rule floor_unique) simp_all

lemma mean_fdiv_2: "fdiv 3 10 = 5404319552844595 / 2 ^ 54"
  unfolding fdiv_def
  by (rule fl_eval [where e = "- 54" and m = 5404319552844595, THEN trans])
    (simp_all add: pow2_def rne_def)

lemma mean_fmul_2: "fmul (3152519739159347 / 2 ^ 53) 10 = 7 / 2"
  unfolding fmul_def
  by (rule fl_eval [where e = "- 51" and m = 7881299347898368, THEN trans])
    (simp_all add: pow2_def rne_def)

lemma mean_round_2: "Math_round (7 / 2) = 4"
  unfolding Math_round_def by (rule floor_unique) simp_all

lemma mean_fdiv_3: "fdiv 4 10 = 3602879701896397 / 2 ^ 53"
  unfolding fdiv_def
  by (rule fl_eval [where e = "- 54" and m = 7205759403792794, THEN trans])
    (simp_all add: pow2_def rne_def)

lemma mean_fl_2: "fl (3 / 10) = 5404319552844595 / 2 ^ 54"
  by (rule fl_eval [where e = "- 54" and m = 5404319552844595, THEN trans])
    (simp_all add: pow2_def rne_def)

lemma mean_fl_3: "fl (4 / 10) = 3602879701896397 / 2 ^ 53"
  by (rule fl_eval [where e = "- 54" and m = 7205759403792794, THEN trans])
    (simp_all add: pow2_def rne_def)

lemma constant_day_mean:
  "round1 (fdiv (foldl fadd 0 (map main_temp fixture_constant_day))
             (real (length fixture_constant_day))) = fl (3 / 10)"
proof -
  have temps: "map main_temp fixture_constant_day =
      [3152519739159347 / 2 ^ 53, 3152519739159347 / 2 ^ 53, 3152519739159347 / 2 ^ 53]"
    by (simp only: fixture_constant_day_def fixture_sample_def list.map sample.select_convs mean_fl_1)
  have len: "real (length fixture_constant_day) = 3"
    by (simp add: fixture_constant_day_def)
  have avg: "fdiv (foldl fadd 0 (map main_temp fixture_constant_day)) (real (length fixture_constant_day))
      = 6305039478318693 / 2 ^ 54"
    unfolding temps len by (simp only: foldl_Cons foldl_Nil mean_fadd_1 mean_fadd_2 mean_fadd_3 mean_fdiv_1)
  show ?thesis
    unfolding avg round1_def mean_fmul_1 mean_round_1 mean_fl_2 using mean_fdiv_2 by simp
qed

lemma constant_day_min:
  "round1 (fold min (tl (map main_temp fixture_constant_day))
             (hd (map main_temp fixture_constant_day))) = fl (4 / 10)"
proof -
  have temps: "map main_temp fixture_constant_day =
      [3152519739159347 / 2 ^ 53, 3152519739159347 / 2 ^ 53, 3152519739159347 / 2 ^ 53]"
    by (simp only: fixture_constant_day_def fixture_sample_def list.map sample.select_convs mean_fl_1)
  have least: "fold min (tl (map main_temp fixture_constant_day)) (hd (map main_temp fixture_constant_day))
      = 3152519739159347 / 2 ^ 53"
    unfolding temps by simp
  show ?thesis
    unfolding least round1_def mean_fmul_2 mean_round_2 mean_fl_3 using mean_fdiv_3 by simp
qed

lemma constant_day_forecast:
  "\<exists>f. forecasts (getWeatherData (fixture_forecast_net fixture_constant_day) 28.5 (- 80.6) 7) = [f] \<and>
     t_day (temperature f) = fl (3 / 10) \<and> t_min (temperature f) = fl (4 / 10)"
proof -
  have ne: "fixture_constant_day \<noteq> []" by (simp add: fixture_constant_day_def)
  have day: "\<forall>i\<in>set fixture_constant_day. dayKey_of_sample i = 20402"
    by (simp add: fixture_constant_day_def dayKey_of_sample_def Day_def msPerDay_def fixture_sample_def)
  from single_day_forecast
    [where net = "fixture_forecast_net fixture_constant_day"
       and data = "\<lparr>payload_city = None, payload_list = Some fixture_constant_day\<rparr>"
       and lat = "28.5" and lon = "- 80.6" and days = 7,
     OF fixture_net_returns _ _ ne day]
  obtain f where
    "forecasts (getWeatherData (fixture_forecast_net fixture_constant_day) 28.5 (- 80.6) 7) = [f]"
    "t_min (temperature f) = round1 (fold min (tl (map main_temp fixture_constant_day))
                                       (hd (map main_temp fixture_constant_day)))"
    "t_day (temperature f) = round1 (fdiv (foldl fadd 0 (map main_temp fixture_constant_day))
                                       (real (length fixture_constant_day)))"
    by auto
  then show ?thesis unfolding constant_day_mean constant_day_min by blast
qed

text \<open>
  Claim C3, as stated, fails on the order of the summary: for three samples of 0.35
  degrees on one day the code gives the day 0.3 and the minimum 0.4.
\<close>

theorem day_mean_below_minimum_counterexample:
  "map (t_day \<circ> temperature)
     (forecasts (getWeatherData (fixture_forecast_net fixture_constant_day) 28.5 (- 80.6) 7))
     = [fl (3 / 10)] \<and>
   map (t_min \<circ> temperature)
     (forecasts (getWeatherData (fixture_forecast_net fixture_constant_day) 28.5 (- 80.6) 7))
     = [fl (4 / 10)] \<and>
   fl (3 / 10) < fl (4 / 10)"
proof -
  have "fl (3 / 10) < fl (4 / 10)" unfolding mean_fl_2 mean_fl_3 by simp
  with constant_day_forecast show ?thesis by auto
qed

text \<open>
  Claim C3, amended: when the forecast request succeeds with a non-empty list of samples
  that all fall on one UTC day, and at least one day is requested, exactly one daily
  forecast is produced.  Its minimum and maximum are the least and the greatest sample,
  its day the mean of the samples as the code computes it (the sum accumulated from 0 in
  the order of the list, divided by the count), each rounded to one decimal;
  the minimum is at most the maximum, and the day lies between them whenever the
  computed mean lies between the least and the greatest sample.  Its precipitation is
  the sum, accumulated from 0 in the order of the list, of the 3-hour rain of all the
  samples, an absent value counting as 0.
\<close>

theorem single_day_aggregation:
  assumes "returned (makeApiRequestWithRetry net 3 2) = Some response"
    and "body response = Parsed data" and "payload_list data = Some items"
    and "items \<noteq> []" and "\<forall>i\<in>set items. dayKey_of_sample i = d" and "1 \<le> days"
  shows "\<exists>f. forecasts (getWeatherData net lat lon days) = [f] \<and>
     t_min (temperature f) = round1 (fold min (tl (map main_temp items)) (hd (map main_temp items))) \<and>
     t_max (temperature f) = round1 (fold max (tl (map main_temp items)) (hd (map main_temp items))) \<and>
     t_day (temperature f) =
       round1 (fdiv (foldl fadd 0 (map main_temp items)) (real (length items))) \<and>
     t_min (temperature f) \<le> t_max (temperature f) \<and>
     (fold min (tl (map main_temp items)) (hd (map main_temp items))
        \<le> fdiv (foldl fadd 0 (map main_temp items)) (real (length items)) \<and>
      fdiv (foldl fadd 0 (map main_temp items)) (real (length items))
        \<le> fold max (tl (map main_temp items)) (hd (map main_temp items)) \<longrightarrow>
      t_min (temperature f) \<le> t_day (temperature f) \<and>
      t_day (temperature f) \<le> t_max (temperature f)) \<and>
     precipitation f = Some (foldl (\<lambda>sum i. fadd sum (or0 (rain_3h i))) 0 items)"
  using assms by (rule single_day_forecast)

text \<open>
  Two samples of 10 and 14.5 degrees, the first with 1.5 mm of rain: the mean is 12.25,
  the day 12.3.
\<close>

lemma day_fadd_1: "fadd 0 10 = 10"
  unfolding fadd_def
  by (rule fl_eval [where e = "- 49" and m = 5629499534213120, THEN trans])
    (simp_all add: pow2_def rne_def)

lemma day_fadd_2: "fadd 10 (29 / 2) = 49 / 2"
  unfolding fadd_def
  by (rule fl_eval [where e = "- 48" and m = 6896136929411072, THEN trans])
    (simp_all add: pow2_def rne_def)

lemma day_fdiv_1: "fdiv (49 / 2) 2 = 49 / 4"
  unfolding fdiv_def
  by (rule fl_eval [where e = "- 49" and m = 6896136929411072, THEN trans])
    (simp_all add: pow2_def rne_def)

lemma day_fmul_1: "fmul (49 / 4) 10 = 245 / 2"
  unfolding fmul_def
  by (rule fl_eval [where e = "- 46" and m = 8620171161763840, THEN trans])
    (simp_all add: pow2_def rne_def)

lemma day_round_1: "Math_round (245 / 2) = 123"
  unfolding Math_round_def by (rule floor_unique) simp_all

lemma day_fdiv_2: "fdiv 123 10 = 3462142213541069 / 2 ^ 48"
  unfolding fdiv_def
  by (rule fl_eval [where e = "- 49" and m = 6924284427082138, THEN trans])
    (simp_all add: pow2_def rne_def)

lemma day_fmul_2: "fmul 10 10 = 100"
  unfolding fmul_def
  by (rule fl_eval [where e = "- 46" and m = 7036874417766400, THEN trans])
    (simp_all add: pow2_def rne_def)

lemma day_round_2: "Math_round 100 = 100"
  unfolding Math_round_def by (rule floor_unique) simp_all

lemma day_fdiv_3: "fdiv 100 10 = 10"
  unfolding fdiv_def
  by (rule fl_eval [where e = "- 49" and m = 5629499534213120, THEN trans])
    (simp_all add: pow2_def rne_def)

lemma day_fmul_3: "fmul (29 / 2) 10 = 145"
  unfolding fmul_def
  by (rule fl_eval [where e = "- 45" and m = 5101733952880640, THEN trans])
    (simp_all add: pow2_def rne_def)

lemma day_round_3: "Math_round 145 = 145"
  unfolding Math_round_def by (rule floor_unique) simp_all

lemma day_fdiv_4: "fdiv 145 10 = 29 / 2"
  unfolding fdiv_def
  by (rule fl_eval [where e = "- 49" and m = 8162774324609024, THEN trans])
    (simp_all add: pow2_def rne_def)

lemma day_fadd_3: "fadd 0 (3 / 2) = 3 / 2"
  unfolding fadd_def
  by (rule fl_eval [where e = "- 52" and m = 6755399441055744, THEN trans])
    (simp_all add: pow2_def rne_def)

lemma day_fadd_4: "fadd (3 / 2) 0 = 3 / 2"
  unfolding fadd_def
  by (rule fl_eval [where e = "- 52" and m = 6755399441055744, THEN trans])
    (simp_all add: pow2_def rne_def)

lemma day_fl_1: "fl (123 / 10) = 3462142213541069 / 2 ^ 48"
  by (rule fl_eval [where e = "- 49" and m = 6924284427082138, THEN trans])
    (simp_all add: pow2_def rne_def)

theorem single_day_aggregation_witness:
  "\<exists>f. forecasts (getWeatherData (fixture_forecast_net fixture_two_samples) 28.5 (- 80.6) 7) = [f] \<and>
     t_min (temperature f) = 10 \<and> t_max (temperature f) = 29 / 2 \<and>
     t_day (temperature f) = fl (123 / 10) \<and>
     t_min (temperature f) \<le> t_day (temperature f) \<and>
     t_day (temperature f) \<le> t_max (temperature f) \<and>
     precipitation f = Some (3 / 2)"
proof -
  have ne: "fixture_two_samples \<noteq> []" by (simp add: fixture_two_samples_def)
  have day: "\<forall>i\<in>set fixture_two_samples. dayKey_of_sample i = 20402"
    by (simp add: fixture_two_samples_def dayKey_of_sample_def Day_def msPerDay_def fixture_sample_def)
  have temps: "map main_temp fixture_two_samples = [10, 29 / 2]"
    by (simp add: fixture_two_samples_def fixture_sample_def)
  have len: "real (length fixture_two_samples) = 2" by (simp add: fixture_two_samples_def)
  have mn: "fold min (tl (map main_temp fixture_two_samples)) (hd (map main_temp fixture_two_samples)) = 10"
    unfolding temps by simp
  have mx: "fold max (tl (map main_temp fixture_two_samples)) (hd (map main_temp fixture_two_samples))
      = 29 / 2"
    unfolding temps by simp
  have avg: "fdiv (foldl fadd 0 (map main_temp fixture_two_samples)) (real (length fixture_two_samples))
      = 49 / 4"
    unfolding temps len by (simp only: foldl_Cons foldl_Nil day_fadd_1 day_fadd_2 day_fdiv_1)
  have r_min: "round1 10 = 10"
    unfolding round1_def day_fmul_2 day_round_2 using day_fdiv_3 by simp
  have r_max: "round1 (29 / 2) = 29 / 2"
    unfolding round1_def day_fmul_3 day_round_3 using day_fdiv_4 by simp
  have r_day: "round1 (49 / 4) = fl (123 / 10)"
    unfolding round1_def day_fmul_1 day_round_1 day_fl_1 using day_fdiv_2 by simp
  have rain: "foldl (\<lambda>sum i. fadd sum (or0 (rain_3h i))) 0 fixture_two_samples = 3 / 2"
    by (simp add: fixture_two_samples_def fixture_sample_def or0_def day_fadd_3 day_fadd_4)
  from single_day_aggregation
    [where net = "fixture_forecast_net fixture_two_samples"
       and data = "\<lparr>payload_city = None, payload_list = Some fixture_two_samples\<rparr>"
       and lat = "28.5" and lon = "- 80.6" and days = 7,
     OF fixture_net_returns _ _ ne day]
  show ?thesis unfolding mn mx avg r_min r_max r_day rain by auto
qed

text \<open>With no day requested the loop leaves at its first test and emits nothing.\<close>

lemma no_day_requested_no_forecast:
  "forecasts (getWeatherData (fixture_forecast_net fixture_two_samples) 28.5 (- 80.6) 0) = []"
  using fixture_net_returns [of fixture_two_samples]
  by (simp add: getWeatherData_def aggregate_def group_by_day_def dayKey_of_sample_def Day_def
      msPerDay_def fixture_sample_def fixture_two_samples_def)

lemma daily_loop_length:
  "daily_loop days c m = Inr fs \<Longrightarrow> length fs \<le> days - c"
proof (induction m arbitrary: c fs)
  case Nil
  then show ?case by simp
next
  case (Cons b m)
  obtain k items where b: "b = (k, items)" by (cases b)
  show ?case
  proof (cases "c \<ge> days")
    case True
    with Cons.prems b show ?thesis by simp
  next
    case False
    with Cons.prems b obtain f fs' where
      "daily_loop days (Suc c) m = Inr fs'" "fs = f # fs'"
      by (auto split: sum.splits)
    with Cons.IH [of "Suc c" fs'] False show ?thesis by simp
  qed
qed

text \<open>
  Claim C10: on every return path of \<open>getWeatherData\<close> the field \<open>days_count\<close> is the
  length of \<open>forecasts\<close>; this length is at most the number of days requested; and on
  every path that reports an error both are 0.
\<close>

theorem days_count_is_forecasts_length:
  "days_count (getWeatherData net lat lon days) =
     length (forecasts (getWeatherData net lat lon days)) \<and>
   length (forecasts (getWeatherData net lat lon days)) \<le> days \<and>
   (wf_error (getWeatherData net lat lon days) \<noteq> None \<longrightarrow>
      forecasts (getWeatherData net lat lon days) = [] \<and>
      days_count (getWeatherData net lat lon days) = 0)"
proof -
  have "length fs \<le> days" if "aggregate days items = Inr fs" for items fs
    using daily_loop_length [of days 0 "group_by_day items" fs] that by (simp add: aggregate_def)
  then show ?thesis
    by (auto simp: getWeatherData_def weather_failure_def
        split: option.splits json.splits sum.splits)
qed

theorem days_count_is_forecasts_length_witness:
  "wf_error (getWeatherData (\<lambda>n. Responded \<lparr>status = 403, retry_after = None, body = JsonNull\<rparr>)
       28.5 (- 80.6) 7) \<noteq> None \<and>
   forecasts (getWeatherData (\<lambda>n. Responded \<lparr>status = 403, retry_after = None, body = JsonNull\<rparr>)
       28.5 (- 80.6) 7) = [] \<and>
   days_count (getWeatherData (\<lambda>n. Responded \<lparr>status = 403, retry_after = None, body = JsonNull\<rparr>)
       28.5 (- 80.6) 7) = 0"
proof -
  have "makeApiRequestWithRetry
          (\<lambda>n. Responded \<lparr>status = 403, retry_after = None, body = JsonNull :: forecast_payload json\<rparr>) 3 2
        = \<lparr>returned = None, requests = 1, sleeps = []\<rparr>"
    using first_response_terminal
      [of 3 "\<lambda>n. Responded \<lparr>status = 403, retry_after = None, body = JsonNull :: forecast_payload json\<rparr>"
          "\<lparr>status = 403, retry_after = None, body = JsonNull :: forecast_payload json\<rparr>" 2]
    by simp
  then have "wf_error (getWeatherData
      (\<lambda>n. Responded \<lparr>status = 403, retry_after = None, body = JsonNull\<rparr>) 28.5 (- 80.6) 7) \<noteq> None"
    by (simp add: getWeatherData_def weather_failure_def)
  with days_count_is_forecasts_length
    [of "\<lambda>n. Responded \<lparr>status = 403, retry_after = None, body = JsonNull\<rparr>" "28.5" "- 80.6" 7]
  show ?thesis by simp
qed

subsection \<open>The calendar\<close>

lemma div_bounds: "0 < n \<Longrightarrow> n * (a div n) \<le> a \<and> a < n * (a div n) + (n::int)"
  using mult_div_mod_eq [of n a] pos_mod_bound [of n a] pos_mod_sign [of n a] by linarith

lemma div_step:
  fixes a n :: int
  assumes "0 < n"
  shows "(a + 1) div n = a div n + (if (a + 1) mod n = 0 then 1 else 0)"
proof -
  have a: "a = n * (a div n) + a mod n" by (rule mult_div_mod_eq [symmetric])
  have r: "0 \<le> a mod n" "a mod n < n" using assms by simp_all
  show ?thesis
  proof (cases "a mod n + 1 < n")
    case True
    have eq: "a + 1 = n * (a div n) + (a mod n + 1)" using a by linarith
    have "(a + 1) div n = a div n"
      using eq r True by (intro int_div_pos_eq [of "a + 1" n "a div n" "a mod n + 1"]) auto
    moreover have "(a + 1) mod n = a mod n + 1"
      using eq r True by (intro int_mod_pos_eq [of "a + 1" n "a div n" "a mod n + 1"]) auto
    ultimately show ?thesis using r by simp
  next
    case False
    with r have last: "a mod n + 1 = n" by linarith
    have "a + 1 = n * (a div n) + (a mod n + 1)" using a by linarith
    also have "\<dots> = n * (a div n) + n" by (simp only: last)
    also have "\<dots> = n * (a div n + 1) + 0" by (simp add: algebra_simps)
    finally have eq: "a + 1 = n * (a div n + 1) + 0" .
    have "(a + 1) div n = a div n + 1"
      using eq assms by (intro int_div_pos_eq [of "a + 1" n "a div n + 1" 0]) auto
    moreover have "(a + 1) mod n = 0"
      using eq assms by (intro int_mod_pos_eq [of "a + 1" n "a div n + 1" 0]) auto
    ultimately show ?thesis by simp
  qed
qed

lemma mod_shift:
  fixes y :: int
  shows "(y + 1 - 1969) mod 4 = 0 \<longleftrightarrow> y mod 4 = 0"
    and "(y + 1 - 1901) mod 100 = 0 \<longleftrightarrow> y mod 100 = 0"
    and "(y + 1 - 1601) mod 400 = 0 \<longleftrightarrow> y mod 400 = 0"
proof -
  have "y + 1 - 1969 = y + 4 * (- 492)" by simp
  then have "(y + 1 - 1969) mod 4 = y mod 4" by (simp only: mod_mult_self2)
  then show "(y + 1 - 1969) mod 4 = 0 \<longleftrightarrow> y mod 4 = 0" by simp
  have "y + 1 - 1901 = y + 100 * (- 19)" by simp
  then have "(y + 1 - 1901) mod 100 = y mod 100" by (simp only: mod_mult_self2)
  then show "(y + 1 - 1901) mod 100 = 0 \<longleftrightarrow> y mod 100 = 0" by simp
  have "y + 1 - 1601 = y + 400 * (- 4)" by simp
  then have "(y + 1 - 1601) mod 400 = y mod 400" by (simp only: mod_mult_self2)
  then show "(y + 1 - 1601) mod 400 = 0 \<longleftrightarrow> y mod 400 = 0" by simp
qed

lemma mod_chain:
  fixes y :: int
  shows "y mod 100 = 0 \<Longrightarrow> y mod 4 = 0" and "y mod 400 = 0 \<Longrightarrow> y mod 100 = 0"
proof -
  show "y mod 100 = 0 \<Longrightarrow> y mod 4 = 0"
    using mod_mod_cancel [of 4 100 y] by simp
  show "y mod 400 = 0 \<Longrightarrow> y mod 100 = 0"
    using mod_mod_cancel [of 100 400 y] by simp
qed

lemma DayFromYear_Suc: "DayFromYear (y + 1) = DayFromYear y + DaysInYear y"
proof -
  have a: "(y + 1 - 1969) div 4 = (y - 1969) div 4 + (if y mod 4 = 0 then 1 else 0)"
    using div_step [of 4 "y - 1969"] mod_shift(1) [of y] by (simp add: algebra_simps)
  have b: "(y + 1 - 1901) div 100 = (y - 1901) div 100 + (if y mod 100 = 0 then 1 else 0)"
    using div_step [of 100 "y - 1901"] mod_shift(2) [of y] by (simp add: algebra_simps)
  have c: "(y + 1 - 1601) div 400 = (y - 1601) div 400 + (if y mod 400 = 0 then 1 else 0)"
    using div_step [of 400 "y - 1601"] mod_shift(3) [of y] by (simp add: algebra_simps)
  show ?thesis
    unfolding DayFromYear_def DaysInYear_def a b c
    using mod_chain [of y] by auto
qed

lemma DaysInYear_bounds: "365 \<le> DaysInYear y \<and> DaysInYear y \<le> 366"
  by (simp add: DaysInYear_def)

lemma DayFromYear_mono_arith:
  fixes y z :: int
  assumes "100 * Bz \<le> z - 1901" "y - 1901 < 100 * By + 100" "Ay \<le> Az" "Cy \<le> Cz" "y + 1 \<le> z"
  shows "365 * (y - 1970) + Ay - By + Cy \<le> 365 * (z - 1970) + Az - Bz + Cz"
proof -
  have "100 * (Bz - By) < z - y + 100" using assms(1,2) by simp
  also have "\<dots> \<le> 100 * (z - y) + 100 * (z - y)" using assms(5) by simp
  finally have "Bz - By < 2 * (z - y)" by simp
  then show ?thesis using assms(3,4,5) by simp
qed

lemma DayFromYear_mono: "y \<le> z \<Longrightarrow> DayFromYear y \<le> DayFromYear z"
proof (cases "y = z")
  case True then show ?thesis by simp
next
  case False
  assume "y \<le> z"
  with False have lt: "y + 1 \<le> z" by simp
  have a: "(y - 1969) div 4 \<le> (z - 1969) div 4" using lt by (intro zdiv_mono1) auto
  have c: "(y - 1601) div 400 \<le> (z - 1601) div 400" using lt by (intro zdiv_mono1) auto
  have bz: "100 * ((z - 1901) div 100) \<le> z - 1901" using div_bounds [of 100 "z - 1901"] by simp
  have by': "y - 1901 < 100 * ((y - 1901) div 100) + 100" using div_bounds [of 100 "y - 1901"] by simp
  show ?thesis unfolding DayFromYear_def by (rule DayFromYear_mono_arith [OF bz by' a c lt])
qed

lemma DayFromYear_strict: "y < z \<Longrightarrow> DayFromYear y < DayFromYear z"
proof -
  assume "y < z"
  then have "y + 1 \<le> z" by simp
  then have "DayFromYear (y + 1) \<le> DayFromYear z" by (rule DayFromYear_mono)
  moreover have "DayFromYear y < DayFromYear (y + 1)"
    using DaysInYear_bounds [of y] by (simp add: DayFromYear_Suc)
  ultimately show ?thesis by simp
qed






















subsection \<open>Correlation\<close>

lemma truthy_Some [simp]: "truthy (Some s) \<longleftrightarrow> s \<noteq> []"
  by (simp add: truthy_def)

lemma truthy_None [simp]: "\<not> truthy None"
  by (simp add: truthy_def)

lemma or_empty_Some [simp]: "or_empty (Some s) = s"
  by (simp add: or_empty_def)

lemma correlate_location: "found_location (correlate w locData maxD days maxR win) = locData"
  by (simp add: correlate_def Let_def)


lemma correlate_weather:
  "result_weather (correlate w locData maxD days maxR win) \<noteq> None \<longleftrightarrow>
   launches (correlate w locData maxD days maxR win) = []"
  by (simp add: correlate_def Let_def)

lemma correlate_count:
  "launches_found (correlate w locData maxD days maxR win) =
   length (launches (correlate w locData maxD days maxR win))"
  by (simp add: correlate_def Let_def)

text \<open>The four shapes of a result.\<close>

lemma getNearbyLaunches_cases:
  "getNearbyLaunches w location maxD days maxR sd =
     (case geocodeLocation (geo_net w location) of
        None \<Rightarrow> ErrorResult (''Location not found: '' @ location) location
      | Some locData \<Rightarrow>
          if truthy sd then
            (case resolve_target w (or_empty sd) of
               Inl err \<Rightarrow> ErrorResult (invalid_date_message (or_empty sd)) location
             | Inr None \<Rightarrow>
                 ErrorResult (''Processing error: '' @ String_of_error range_error) location
             | Inr (Some target) \<Rightarrow>
                 Found (correlate w locData maxD days maxR (Some (window_of w target))))
          else Found (correlate w locData maxD days maxR None))"
  by (simp add: getNearbyLaunches_def getNearbyLaunches_try_def split: option.splits sum.splits)

lemma found_is_correlate:
  assumes "getNearbyLaunches w location maxD days maxR sd = Found r"
  shows "\<exists>locData win. geocodeLocation (geo_net w location) = Some locData \<and>
           r = correlate w locData maxD days maxR win"
  using assms unfolding getNearbyLaunches_cases
  by (auto split: option.splits if_splits sum.splits)

text \<open>
  Claim C8: in a successful result the standalone forecast block is present exactly when
  no launch survived; the count is the length of the list.
\<close>

theorem weather_block_iff_no_launches:
  assumes "getNearbyLaunches w location maxD days maxR sd = Found r"
  shows "(result_weather r \<noteq> None \<longleftrightarrow> launches r = []) \<and> launches_found r = length (launches r)"
  using found_is_correlate [OF assms] correlate_weather correlate_count by metis

text \<open>
  The outer handler is reached in one way only: a specific date is given, the place is
  found, and the target has become invalid, which \<open>setFullYear\<close> brings about when the
  year after the current one lies beyond the range of \<open>Date\<close>.
\<close>

lemma outer_handler_reached:
  "getNearbyLaunches_try w location maxD days maxR sd = Inl err \<longleftrightarrow>
     err = range_error \<and> geocodeLocation (geo_net w location) \<noteq> None \<and> truthy sd \<and>
     resolve_target w (or_empty sd) = Inr None"
  by (auto simp: getNearbyLaunches_try_def split: option.splits sum.splits)

text \<open>
  Claim C7: when the geocoder returns \<open>null\<close> the result is the object with the error
  \<open>Location not found: <placeName>\<close> and the location.  For every input, an error that
  the outer \<open>try\<close> block raises is returned as the object with the error
  \<open>Processing error: <message>\<close>, the message being \<open>String(err)\<close>, and the location;
  what the block returns is returned as it is; so that the result is a success or an
  error object that carries the location.
\<close>

theorem location_not_found_and_no_raise:
  "(geocodeLocation (geo_net w location) = None \<longrightarrow>
      getNearbyLaunches w location maxD days maxR sd =
        ErrorResult (''Location not found: '' @ location) location) \<and>
   (\<forall>err. getNearbyLaunches_try w location maxD days maxR sd = Inl err \<longrightarrow>
      getNearbyLaunches w location maxD days maxR sd =
        ErrorResult (''Processing error: '' @ String_of_error err) location) \<and>
   (\<forall>res. getNearbyLaunches_try w location maxD days maxR sd = Inr res \<longrightarrow>
      getNearbyLaunches w location maxD days maxR sd = res) \<and>
   ((\<exists>r. getNearbyLaunches w location maxD days maxR sd = Found r) \<or>
    (\<exists>msg. getNearbyLaunches w location maxD days maxR sd = ErrorResult msg location))"
proof -
  have 1: "geocodeLocation (geo_net w location) = None \<longrightarrow>
      getNearbyLaunches w location maxD days maxR sd =
        ErrorResult (''Location not found: '' @ location) location"
    by (simp add: getNearbyLaunches_cases)
  have 2: "\<forall>err. getNearbyLaunches_try w location maxD days maxR sd = Inl err \<longrightarrow>
      getNearbyLaunches w location maxD days maxR sd =
        ErrorResult (''Processing error: '' @ String_of_error err) location"
    by (simp add: getNearbyLaunches_def)
  have 3: "\<forall>res. getNearbyLaunches_try w location maxD days maxR sd = Inr res \<longrightarrow>
      getNearbyLaunches w location maxD days maxR sd = res"
    by (simp add: getNearbyLaunches_def)
  have 4: "(\<exists>r. getNearbyLaunches w location maxD days maxR sd = Found r) \<or>
    (\<exists>msg. getNearbyLaunches w location maxD days maxR sd = ErrorResult msg location)"
    unfolding getNearbyLaunches_cases by (simp split: option.splits sum.splits)
  from 1 2 3 4 show ?thesis by blast
qed


lemma check_visibility_keeps:
  "distance_km (check_visibility w fs l) = distance_km l \<and>
   net_raw (check_visibility w fs l) = net_raw l \<and>
   pad_latitude (check_visibility w fs l) = pad_latitude l \<and>
   pad_longitude (check_visibility w fs l) = pad_longitude l \<and>
   launch_id (check_visibility w fs l) = launch_id l"
  by (simp add: check_visibility_def split: option.splits)




subsection \<open>Visibility, and the properties at the test data\<close>

lemma assess_weather_reference:
  "fst (assess_weather f) = reference_status (reference_flags f)"
  by (simp add: assess_weather_def reference_status_def reference_flags_def Let_def)

lemma check_visibility_matched:
  assumes "truthy (net_raw launch)" "parseDate w (or_empty (net_raw launch)) = Some t"
    and "matching_forecast (Day t) fs = Some f"
  shows "visibility (check_visibility w fs launch) =
           Some (verdict (fst (assess_weather f)) (snd (assess_weather f)))"
  using assms by (simp add: check_visibility_def)

text \<open>
  Claim C4: for a launch that is matched to a daily forecast, the status of its
  visibility verdict is the reference classification of that forecast.  In particular a
  day with descriptor \<open>Clear\<close> and clouds, humidity, precipitation and snow all 0 is
  \<open>Good\<close>, and a day with descriptor \<open>rain\<close> and clouds 50 is \<open>Not Visible\<close>, whatever
  its humidity, precipitation and snow.
\<close>

theorem visibility_status_is_reference:
  assumes "truthy (net_raw launch)" "parseDate w (or_empty (net_raw launch)) = Some t"
    and "matching_forecast (Day t) fs = Some f"
  shows "map_option vis_status (visibility (check_visibility w fs launch)) =
           Some (reference_status (reference_flags f)) \<and>
         fst (assess_weather (fixture_day raw (Some ''Clear'') 0 0 0 0)) = ''Good'' \<and>
         fst (assess_weather (fixture_day raw (Some ''rain'') 50 h p s)) = ''Not Visible''"
proof -
  have "map_option vis_status (visibility (check_visibility w fs launch)) =
           Some (reference_status (reference_flags f))"
    using check_visibility_matched [OF assms]
    by (simp add: verdict_def assess_weather_reference)
  moreover have "fst (assess_weather (fixture_day raw (Some ''Clear'') 0 0 0 0)) = ''Good''"
    by (simp add: assess_weather_def fixture_day_def Let_def or0_def toLowerCase_def
        lower_char_def bad_weather_words_def)
  moreover have "fst (assess_weather (fixture_day raw (Some ''rain'') 50 h p s)) = ''Not Visible''"
    by (simp add: assess_weather_def fixture_day_def Let_def or0_def toLowerCase_def
        lower_char_def bad_weather_words_def)
  ultimately show ?thesis by simp
qed

text \<open>A launch on 5 November 2026 and a rainy forecast for that day.\<close>

theorem visibility_status_is_reference_witness:
  "map_option vis_status
     (visibility (check_visibility fixture_world
        [fixture_day 1793836800 (Some ''Rain'') 50 0 0 0] (project_launch fixture_launch)))
   = Some ''Not Visible''"
proof -
  have 1: "truthy (net_raw (project_launch fixture_launch))"
    by (simp add: project_launch_def fixture_launch_def)
  have 2: "parseDate fixture_world (or_empty (net_raw (project_launch fixture_launch))) =
      Some 1793880000000"
    by (simp add: project_launch_def fixture_launch_def fixture_world_def fixture_parse_def)
  have 3: "matching_forecast (Day 1793880000000) [fixture_day 1793836800 (Some ''Rain'') 50 0 0 0] =
      Some (fixture_day 1793836800 (Some ''Rain'') 50 0 0 0)"
    by (simp add: matching_forecast_def Day_def msPerDay_def fixture_day_def)
  have lc: "toLowerCase ''Rain'' = ''rain''" by code_simp
  have 4: "reference_status (reference_flags (fixture_day 1793836800 (Some ''Rain'') 50 0 0 0)) =
      ''Not Visible''"
    by (simp add: fixture_day_def reference_status_def reference_flags_def or0_def
        lc bad_weather_words_def)
  from visibility_status_is_reference [OF 1 2 3] show ?thesis by (simp only: 4)
qed

text \<open>
  The distance from (0, 0) to the pad at (0, 0.00005), one operation at a time: it is
  0.005559746332227936 km, which is below 0.0075 and is rounded to 0.01.
\<close>

lemma pad_fl_1: "fl (5 / 100000) = 7378697629483821 / 2 ^ 67"
  by (rule fl_eval [where e = "- 67" and m = 7378697629483821, THEN trans])
    (simp_all add: pow2_def rne_def)

lemma pad_fsub_1: "fsub 0 0 = 0"
  by (simp add: fsub_def)

lemma pad_fmul_1: "fmul 0 Math_PI = 0"
  by (simp add: fmul_def Math_PI_def)

lemma pad_fdiv_1: "fdiv 0 180 = 0"
  by (simp add: fdiv_def)

lemma pad_fsub_2: "fsub (7378697629483821 / 2 ^ 67) 0 = 7378697629483821 / 2 ^ 67"
  unfolding fsub_def
  by (rule fl_eval [where e = "- 67" and m = 7378697629483821, THEN trans])
    (simp_all add: pow2_def rne_def)

lemma pad_fmul_2: "fmul (7378697629483821 / 2 ^ 67) Math_PI = 2897607783230849 / 2 ^ 64"
  unfolding fmul_def Math_PI_def
  by (rule fl_eval [where e = "- 65" and m = 5795215566461698, THEN trans])
    (simp_all add: pow2_def rne_def)

lemma pad_fdiv_2: "fdiv (2897607783230849 / 2 ^ 64) 180 = 4121042180594985 / 2 ^ 72"
  unfolding fdiv_def
  by (rule fl_eval [where e = "- 73" and m = 8242084361189970, THEN trans])
    (simp_all add: pow2_def rne_def)

lemma pad_fdiv_3: "fdiv 0 2 = 0"
  by (simp add: fdiv_def)

lemma fixture_sin_zero: "Math_sin fixture_math 0 = 0"
  by (simp add: fixture_math_def fixture_sin_def)

lemma pad_fmul_3: "fmul 0 0 = 0"
  by (simp add: fmul_def)

lemma fixture_cos_zero: "Math_cos fixture_math 0 = 1"
  by (simp add: fixture_math_def fixture_cos_def fl_one)

lemma pad_fmul_4: "fmul 1 1 = 1"
  unfolding fmul_def
  by (rule fl_eval [where e = "- 52" and m = 4503599627370496, THEN trans])
    (simp_all add: pow2_def rne_def)

lemma pad_fdiv_4: "fdiv (4121042180594985 / 2 ^ 72) 2 = 4121042180594985 / 2 ^ 73"
  unfolding fdiv_def
  by (rule fl_eval [where e = "- 74" and m = 8242084361189970, THEN trans])
    (simp_all add: pow2_def rne_def)

lemma pad_sin_1: "Math_sin fixture_math (4121042180594985 / 2 ^ 73) = 2060521090297427 / 2 ^ 72"
  by (simp add: fixture_math_def fixture_sin_def)

lemma pad_fmul_5: "fmul (2060521090297427 / 2 ^ 72) (2060521090297427 / 2 ^ 72) = 7541962012354903 / 2 ^ 95"
  unfolding fmul_def
  by (rule fl_eval [where e = "- 95" and m = 7541962012354903, THEN trans])
    (simp_all add: pow2_def rne_def)

lemma pad_fmul_6: "fmul 1 (7541962012354903 / 2 ^ 95) = 7541962012354903 / 2 ^ 95"
  unfolding fmul_def
  by (rule fl_eval [where e = "- 95" and m = 7541962012354903, THEN trans])
    (simp_all add: pow2_def rne_def)

lemma pad_fadd_1: "fadd 0 (7541962012354903 / 2 ^ 95) = 7541962012354903 / 2 ^ 95"
  unfolding fadd_def
  by (rule fl_eval [where e = "- 95" and m = 7541962012354903, THEN trans])
    (simp_all add: pow2_def rne_def)

lemma pad_fsub_3: "fsub 1 (7541962012354903 / 2 ^ 95) = 9007199254739277 / 2 ^ 53"
  unfolding fsub_def
  by (rule fl_eval [where e = "- 53" and m = 9007199254739277, THEN trans])
    (simp_all add: pow2_def rne_def)

lemma pad_sqrt_1: "Math_sqrt (7541962012354903 / 2 ^ 95) = Some (2060521090297427 / 2 ^ 72)"
  proof -
  have "fl (sqrt (7541962012354903 / 2 ^ 95)) = real_of_int 8242084361189708 * pow2 (- 74)"
    by (rule fl_sqrt_eval) (simp_all add: pow2_def power2_eq_square)
  then show ?thesis by (simp add: Math_sqrt_def pow2_def)
qed

lemma pad_sqrt_2: "Math_sqrt (9007199254739277 / 2 ^ 53) = Some (4503599627370067 / 2 ^ 52)"
  proof -
  have "fl (sqrt (9007199254739277 / 2 ^ 53)) = real_of_int 9007199254740134 * pow2 (- 53)"
    by (rule fl_sqrt_eval) (simp_all add: pow2_def power2_eq_square)
  then show ?thesis by (simp add: Math_sqrt_def pow2_def)
qed

lemma pad_atan2_1: "Math_atan2 fixture_math (2060521090297427 / 2 ^ 72) (4503599627370067 / 2 ^ 52) = 4121042180594985 / 2 ^ 73"
  by (simp add: fixture_math_def fixture_atan2_def)

lemma pad_fmul_7: "fmul 2 (4121042180594985 / 2 ^ 73) = 4121042180594985 / 2 ^ 72"
  unfolding fmul_def
  by (rule fl_eval [where e = "- 73" and m = 8242084361189970, THEN trans])
    (simp_all add: pow2_def rne_def)

lemma pad_fmul_8: "fmul 6371 (4121042180594985 / 2 ^ 72) = 6409951106584631 / 2 ^ 60"
  unfolding fmul_def
  by (rule fl_eval [where e = "- 60" and m = 6409951106584631, THEN trans])
    (simp_all add: pow2_def rne_def)

lemma pad_fmul_9: "fmul (6409951106584631 / 2 ^ 60) 100 = 5007774302019243 / 2 ^ 53"
  unfolding fmul_def
  by (rule fl_eval [where e = "- 53" and m = 5007774302019243, THEN trans])
    (simp_all add: pow2_def rne_def)

lemma pad_round_1: "Math_round (5007774302019243 / 2 ^ 53) = 1"
  unfolding Math_round_def by (rule floor_unique) simp_all

lemma pad_fdiv_5: "fdiv 1 100 = 5764607523034235 / 2 ^ 59"
  unfolding fdiv_def
  by (rule fl_eval [where e = "- 59" and m = 5764607523034235, THEN trans])
    (simp_all add: pow2_def rne_def)

lemma pad_fl_2: "fl (1 / 100) = 5764607523034235 / 2 ^ 59"
  by (rule fl_eval [where e = "- 59" and m = 5764607523034235, THEN trans])
    (simp_all add: pow2_def rne_def)


lemma fixture_distance:
  "calculateDistance fixture_math 0 0 0 (fl (5 / 100000)) = Some (6409951106584631 / 2 ^ 60)"
  by (simp only: pad_fl_1 calculateDistance_def Let_def toRad_def option.case
      pad_fsub_1 pad_fmul_1 pad_fdiv_1 pad_fsub_2 pad_fmul_2 pad_fdiv_2 pad_fdiv_3
      fixture_sin_zero fixture_pow_square pad_fmul_3 fixture_cos_zero pad_fmul_4 pad_fdiv_4
      pad_sin_1 pad_fmul_5 pad_fmul_6 pad_fadd_1 pad_fsub_3 pad_sqrt_1 pad_sqrt_2
      pad_atan2_1 pad_fmul_7 pad_fmul_8)

lemma fixture_distance_rounded: "round2 (6409951106584631 / 2 ^ 60) = fl (1 / 100)"
  unfolding round2_def pad_fmul_9 pad_round_1 pad_fl_2
  using pad_fdiv_5 by simp



lemma fixture_geocode:
  "geocodeLocation (geo_net fixture_world q) =
     (if q = ''Atlantis'' then None
      else Some \<lparr>name = ''Origin'', local_name = ''Origin'', latitude = 0, longitude = 0,
                 country = ''XX'', state = ''N/A''\<rparr>)"
proof -
  have "makeApiRequestWithRetry (geo_net fixture_world q) 3 2 =
      \<lparr>returned = Some \<lparr>status = 200, retry_after = None,
                    body = Parsed (if q = ''Atlantis'' then [] else [fixture_place])\<rparr>,
       requests = 1, sleeps = []\<rparr>"
    by (rule first_ok_response_returned) (simp_all add: fixture_world_def ok_def)
  then show ?thesis
    by (simp add: geocodeLocation_def fixture_place_def)
qed

lemma fixture_catalog:
  "getNextLaunch (launch_net fixture_world) (Some ''Go'') None 10 = [project_launch fixture_launch]"
proof -
  have "makeApiRequestWithRetry (launch_net fixture_world) 10000 3 =
      \<lparr>returned = Some \<lparr>status = 200, retry_after = None,
                    body = Parsed \<lparr>results = Some [fixture_launch]\<rparr>\<rparr>,
       requests = 1, sleeps = []\<rparr>"
    by (rule first_ok_response_returned) (simp_all add: fixture_world_def ok_def)
  moreover have "\<not> filtered_out (Some ''Go'') (or_empty (u_status_name fixture_launch))"
    by (simp add: filtered_out_def fixture_launch_def toLowerCase_def lower_char_def)
  ultimately show ?thesis
    by (simp add: getNextLaunch_def filtered_out_def)
qed

lemma correlate_launches_no_date:
  "launches (correlate w locData maxD days maxR None) =
     map (check_visibility w
            (forecasts (getWeatherData (weather_net w (latitude locData) (longitude locData))
                          (latitude locData) (longitude locData) days)))
       (sort_key (\<lambda>l. or0 (distance_km l))
          (nearby_loop w None (TimeClip (now_cutoff w + int days * 86400000))
             (Some (now_start w)) locData maxD
             (getNextLaunch (launch_net w) (Some ''Go'') None maxR)))"
  by (simp add: correlate_def Let_def)

lemma fixture_nearby:
  assumes "6409951106584631 / 2 ^ 60 \<le> maxD"
  shows "nearby_loop fixture_world None (TimeClip (now_cutoff fixture_world + int 7 * 86400000))
           (Some (now_start fixture_world))
           \<lparr>name = ''Origin'', local_name = ''Origin'', latitude = 0, longitude = 0,
             country = ''XX'', state = ''N/A''\<rparr> maxD [project_launch fixture_launch]
         = [(project_launch fixture_launch)\<lparr>distance_km := Some (fl (1 / 100))\<rparr>]"
  using assms fixture_distance fixture_distance_rounded
  by (simp add: project_launch_def fixture_launch_def fixture_world_def fixture_parse_def
      outside_window_def date_less_def TimeClip_def ToNumber_def Let_def)

lemma fixture_found:
  assumes "6409951106584631 / 2 ^ 60 \<le> maxD"
  shows "\<exists>r. getNearbyLaunches fixture_world ''Florida'' maxD 7 10 None = Found r \<and>
     map distance_km (launches r) = [Some (fl (1 / 100))] \<and>
     map pad_longitude (launches r) = [Num (fl (5 / 100000))] \<and>
     found_location r = \<lparr>name = ''Origin'', local_name = ''Origin'', latitude = 0, longitude = 0,
             country = ''XX'', state = ''N/A''\<rparr>"
  using fixture_nearby [OF assms]
  by (simp add: getNearbyLaunches_cases fixture_geocode correlate_launches_no_date fixture_catalog
      check_visibility_keeps correlate_location project_launch_def fixture_launch_def)



text \<open>
  A launch whose pad coordinates are \<open>null\<close> passes the test of line 540 and is measured
  from (0, 0): at the place (0, 0) it is kept with \<open>distance_km = 0\<close>.
\<close>

lemma null_pad_coordinate_kept:
  assumes "0 \<le> maxD"
  shows "nearby_loop fixture_world None (TimeClip (now_cutoff fixture_world + int 7 * 86400000))
           (Some (now_start fixture_world))
           \<lparr>name = ''Origin'', local_name = ''Origin'', latitude = 0, longitude = 0,
             country = ''XX'', state = ''N/A''\<rparr> maxD
           [(project_launch fixture_launch)\<lparr>pad_latitude := Null, pad_longitude := Null\<rparr>]
         = [(project_launch fixture_launch)
              \<lparr>pad_latitude := Null, pad_longitude := Null, distance_km := Some 0\<rparr>]"
proof -
  have "calculateDistance fixture_math 0 0 0 0 = Some 0"
    by (rule calculateDistance_same_point)
      (simp_all add: fixture_math_def fixture_sin_def fixture_atan2_def atan2_def fmul_def)
  moreover have "round2 0 = 0" by (simp add: round2_def fmul_def fdiv_def Math_round_def)
  ultimately show ?thesis using assms
    by (simp add: project_launch_def fixture_launch_def fixture_world_def fixture_parse_def
        outside_window_def date_less_def TimeClip_def ToNumber_def Let_def)
qed

text \<open>One launch survives: the result has no forecast block.\<close>

theorem weather_block_iff_no_launches_witness:
  "\<exists>r. getNearbyLaunches fixture_world ''Florida'' 1000 7 10 None = Found r \<and>
     launches r \<noteq> [] \<and> result_weather r = None \<and> launches_found r = 1"
proof -
  have "6409951106584631 / 2 ^ 60 \<le> (1000 :: real)" by simp
  from fixture_found [OF this] obtain r where
    r: "getNearbyLaunches fixture_world ''Florida'' 1000 7 10 None = Found r"
      "map distance_km (launches r) = [Some (fl (1 / 100))]"
    by auto
  from r(2) have "length (launches r) = 1" by (metis length_map length_Cons list.size(3) One_nat_def)
  with weather_block_iff_no_launches [OF r(1)] r(1) show ?thesis by auto
qed

text \<open>
  The dates of the test data: 3 November 2026 (now), 1 January 2001 (\<open>Jan 1\<close>),
  5 March 2026 (\<open>3/5/26\<close>), and the last day of \<open>Date\<close>, in the year 275760.
\<close>

lemma fixture_years:
  "getFullYear 0 1793664000000 = 2026" "getFullYear 0 978307200000 = 2001"
  "getFullYear 0 1772668800000 = 2026" "getFullYear 0 1798761600000 = 2027"
  "getFullYear 0 8640000000000000 = 275760"
  by (simp_all add: getFullYear_def LocalTime_def YearFromTime_def Day_def msPerDay_def
      YearFromDay_def DayFromYear_def)

lemma fixture_day_within_year:
  "DayWithinYear 978307200000 = 0" "DayWithinYear 1772668800000 = 63"
  "DayWithinYear 1798761600000 = 0"
  "leap_days (YearFromTime 978307200000) = 0" "leap_days (YearFromTime 1772668800000) = 0"
  "leap_days (YearFromTime 1798761600000) = 0"
  by (simp_all add: DayWithinYear_def YearFromTime_def Day_def msPerDay_def
      YearFromDay_def DayFromYear_def leap_days_def DaysInYear_def)

lemma fixture_months:
  "MonthFromTime 978307200000 = 0" "DateFromTime 978307200000 = 1"
  "MonthFromTime 1772668800000 = 2" "DateFromTime 1772668800000 = 5"
  "MonthFromTime 1798761600000 = 0" "DateFromTime 1798761600000 = 1"
  by (simp_all add: MonthFromTime_def DateFromTime_def month_of_day_def month_start_def
      fixture_day_within_year)

lemma fixture_MakeDay:
  "MakeDay 2027 0 1 = 20819" "MakeDay 2027 2 5 = 20882" "MakeDay 275761 0 1 = 100000110"
  by (simp_all add: MakeDay_def DayFromYear_def month_start_def leap_days_def DaysInYear_def)



lemma fixture_setFullYear_3: "setFullYear 0 978307200000 275761 = None"
proof -
  have "LocalTime 0 978307200000 = 978307200000" by (simp add: LocalTime_def)
  moreover have "TimeWithinDay 978307200000 = 0" by (simp add: TimeWithinDay_def msPerDay_def)
  ultimately show ?thesis
    by (simp add: setFullYear_def fixture_months fixture_MakeDay MakeDate_def msPerDay_def TimeClip_def)
qed

lemma fixture_readings:
  "tz fixture_world = 0" "now_parse fixture_world = 1793664000000"
  "parseDate fixture_world ''Jan 1'' = Some 978307200000"
  "parseDate fixture_world ''2025-11-10'' = Some 1762732800000"
  "parseDate fixture_world ''3/5/26'' = Some 1772668800000"
  by (simp_all add: fixture_world_def fixture_parse_def)

lemma fixture_florida:
  "geocodeLocation (geo_net fixture_world ''Florida'') =
      Some \<lparr>name = ''Origin'', local_name = ''Origin'', latitude = 0, longitude = 0,
                 country = ''XX'', state = ''N/A''\<rparr>"
  by (simp add: fixture_geocode)




text \<open>
  Atlantis is not found.  And when the clock stands at the last instant of \<open>Date\<close>, in
  the year 275760, the target of \<open>Jan 1\<close> is invalid: \<open>toISOString\<close> throws, and the
  outer handler returns the processing error.
\<close>

theorem location_not_found_and_no_raise_witness:
  "geocodeLocation (geo_net fixture_world ''Atlantis'') = None \<and>
   getNearbyLaunches fixture_world ''Atlantis'' 1000 7 10 None =
     ErrorResult ''Location not found: Atlantis'' ''Atlantis'' \<and>
   getNearbyLaunches_try (fixture_world\<lparr>now_parse := 8640000000000000\<rparr>) ''Florida'' 1000 7 10
     (Some ''Jan 1'') = Inl range_error \<and>
   getNearbyLaunches (fixture_world\<lparr>now_parse := 8640000000000000\<rparr>) ''Florida'' 1000 7 10
     (Some ''Jan 1'') =
     ErrorResult ''Processing error: RangeError: Invalid time value'' ''Florida''"
proof -
  define late where "late = fixture_world\<lparr>now_parse := 8640000000000000\<rparr>"
  have g: "geocodeLocation (geo_net late ''Florida'') \<noteq> None"
    using fixture_florida by (simp add: late_def)
  have "resolve_target late ''Jan 1'' = Inr None"
    by (simp add: late_def resolve_target_def fixture_readings fixture_years fixture_setFullYear_3
        is_digit_def)
  with g have raised: "getNearbyLaunches_try late ''Florida'' 1000 7 10 (Some ''Jan 1'') = Inl range_error"
    by (simp add: outer_handler_reached)
  have atlantis: "geocodeLocation (geo_net fixture_world ''Atlantis'') = None"
    by (simp add: fixture_geocode)
  from location_not_found_and_no_raise [of fixture_world "''Atlantis''" 1000 7 10 None]
    location_not_found_and_no_raise [of late "''Florida''" 1000 7 10 "Some ''Jan 1''"]
    atlantis raised
  show ?thesis unfolding late_def by (simp add: String_of_error_def range_error_def)
qed

end
